theory Spec2Isabelle
  imports Complex_Main
begin

section \<open>Data model\<close>

text \<open>
  The planner of \<^verbatim>\<open>default_planner.cpp\<close> works on ROS messages and on lanelets.
  The lengths that \<^verbatim>\<open>check_goal_footprint_inside_lanes\<close> adds, subtracts and compares
  are values of the type \<open>double\<close> below, with the rounding of the machine. Coordinates,
  angles and overhangs, which the planner hands to its collaborators or shifts a pose by, are
  reals.
\<close>

subsection \<open>Double precision numbers\<close>

text \<open>
  \<open>Double m e\<close> is the number \<open>m * 2 ^ e\<close>. A number is kept in its normal form: an odd
  mantissa, or \<open>Double 0 0\<close> for zero, so that equal numbers are equal values of the type.
  A result is rounded to 53 bits, to the nearest number and to the even mantissa at a tie, as
  the addition and the subtraction of IEEE 754 binary64 do in the default rounding mode. The
  exponent is not bounded: overflow, subnormal numbers, infinities and NaN are left out.
\<close>

datatype double = Double int int

function normalize_double :: "int \<Rightarrow> int \<Rightarrow> double" where
  "normalize_double m e =
     (if m = 0 then Double 0 0
      else if even m then normalize_double (m div 2) (e + 1)
      else Double m e)"
  by pat_completeness auto
termination
  by (relation "measure (\<lambda>(m, e). nat \<bar>m\<bar>)") auto

fun bit_length :: "nat \<Rightarrow> nat" where
  "bit_length n = (if n = 0 then 0 else Suc (bit_length (n div 2)))"

definition round_double :: "int \<Rightarrow> int \<Rightarrow> double" where
  "round_double m e =
     (let a = nat \<bar>m\<bar>; k = bit_length a
      in if k \<le> 53 then normalize_double m e
         else
           (let s = k - 53; q = a div 2 ^ s; r = a mod 2 ^ s; h = 2 ^ (s - 1);
                rounded = (if r < h then q else if h < r then q + 1
                           else if even q then q else q + 1)
            in normalize_double (sgn m * int rounded) (e + int s)))"

fun d_add :: "double \<Rightarrow> double \<Rightarrow> double" where
  "d_add (Double m1 e1) (Double m2 e2) =
     (let e = min e1 e2
      in round_double (m1 * 2 ^ nat (e1 - e) + m2 * 2 ^ nat (e2 - e)) e)"

fun d_neg :: "double \<Rightarrow> double" where
  "d_neg (Double m e) = Double (- m) e"

definition d_sub :: "double \<Rightarrow> double \<Rightarrow> double" where
  "d_sub a b = d_add a (d_neg b)"

fun d_less :: "double \<Rightarrow> double \<Rightarrow> bool" where
  "d_less (Double m1 e1) (Double m2 e2) =
     (let e = min e1 e2 in m1 * 2 ^ nat (e1 - e) < m2 * 2 ^ nat (e2 - e))"

definition real_of_double :: "double \<Rightarrow> real" where
  "real_of_double d =
     (case d of Double m e \<Rightarrow>
        if 0 \<le> e then real_of_int m * 2 ^ nat e else real_of_int m / 2 ^ nat (- e))"

subsection \<open>Messages and members\<close>

record point3d =
  px :: real
  py :: real
  pz :: real

type_synonym point2d = "real \<times> real"

definition to2D :: "point3d \<Rightarrow> point2d" where
  "to2D p = (px p, py p)"

record quaternion =
  qx :: real
  qy :: real
  qz :: real
  qw :: real

record pose =
  position :: point3d
  orientation :: quaternion

record lanelet_primitive =
  prim_id :: int
  primitive_type :: string

record lanelet_segment =
  preferred_primitive :: lanelet_primitive
  primitives :: "lanelet_primitive list"

text \<open>
  \<^verbatim>\<open>LaneletRoute\<close>: the fields \<^verbatim>\<open>plan\<close> writes. The header, the uuid and the
  modification flag are left to the caller (``The header is assigned by mission planner'').
\<close>

record lanelet_route =
  start_pose :: pose
  goal_pose :: pose
  segments :: "lanelet_segment list"

text \<open>The value of a default-constructed message: zero position, unit quaternion, no segment.\<close>

definition pose_default :: pose where
  "pose_default =
     \<lparr>position = \<lparr>px = 0, py = 0, pz = 0\<rparr>,
      orientation = \<lparr>qx = 0, qy = 0, qz = 0, qw = 1\<rparr>\<rparr>"

definition route_msg_default :: lanelet_route where
  "route_msg_default =
     \<lparr>start_pose = pose_default, goal_pose = pose_default, segments = []\<rparr>"

record vehicle_info =
  max_longitudinal_offset_m :: double
  left_overhang_m :: real
  right_overhang_m :: real

record default_planner_param =
  goal_angle_threshold_deg :: real
  enable_correct_goal_pose :: bool
  consider_no_drivable_lanes :: bool
  check_footprint_inside_lanes :: bool

text \<open>
  The members of \<^verbatim>\<open>DefaultPlanner\<close> the planning functions read or write
  (\<^verbatim>\<open>vehicle_info_\<close>, \<^verbatim>\<open>param_\<close>; a name cannot end with an underscore here).
  \<open>m_route_lanelets\<close> is the part of \<^verbatim>\<open>route_handler_\<close> that \<^verbatim>\<open>setRouteLanelets\<close>
  overwrites. \<open>search_margin_default\<close> is the default argument of
  \<^verbatim>\<open>check_goal_footprint_inside_lanes\<close>: it is declared in \<^verbatim>\<open>default_planner.hpp\<close>,
  so it is a parameter here.
\<close>

record 'l default_planner =
  m_vehicle_info :: vehicle_info
  m_param :: default_planner_param
  search_margin_default :: double
  m_route_lanelets :: "'l list"

text \<open>
  The collaborators: the lanelet map and its geometry (\<^verbatim>\<open>lanelet2\<close>, \<^verbatim>\<open>boost::geometry\<close>),
  the route handler and the helpers of \<^verbatim>\<open>utility_functions.hpp\<close>. Their code is outside
  this file, so each is a field of the environment; \<open>'l\<close> is the type of lanelets, \<open>'p\<close> of
  2D polygons and \<open>'s\<close> of the line strings of parking spaces.

  \<^item> \<open>nearest_order\<close> is the order in which \<^verbatim>\<open>laneletLayer.nearestUntil\<close> visits the
    lanelets (by increasing distance of the bounding box), \<open>bbox_distance2d\<close> the distance of a
    lanelet's bounding box;
  \<^item> \<open>footprint_polygon\<close> is \<^verbatim>\<open>createFootprint\<close>, \<^verbatim>\<open>transformVector\<close> and
    \<^verbatim>\<open>convert_linear_ring_to_polygon\<close> in one;
  \<^item> \<open>project_on_fine_centerline\<close> is \<^verbatim>\<open>generateFineCenterline\<close> followed by
    \<^verbatim>\<open>lanelet::geometry::project\<close>;
  \<^item> \<open>setFineCenterline\<close> is \<^verbatim>\<open>generateFineCenterline\<close> at a resolution followed by
    \<^verbatim>\<open>setCenterline\<close>, and \<open>nearest_centerline_point\<close> is \<^verbatim>\<open>findNearestIndex\<close>
    followed by the read of the centerline at that index;
  \<^item> \<open>createMapSegments\<close> takes the route lanelets stored in the handler first.
\<close>

record ('l, 'p, 's) collaborators =
  lanelet_id :: "'l \<Rightarrow> int"
  polygon2d :: "'l \<Rightarrow> 'p"
  boost_within :: "'p \<Rightarrow> 'p \<Rightarrow> bool"
  distance :: "'p \<Rightarrow> point2d \<Rightarrow> real"
  distance2d :: "point2d \<Rightarrow> 'l \<Rightarrow> real"
  bbox_distance2d :: "'l \<Rightarrow> point2d \<Rightarrow> real"
  nearest_order :: "point2d \<Rightarrow> 'l list"
  laneletLayer :: "'l list"
  getLaneletLength2d :: "'l \<Rightarrow> double"
  getLaneletAngle :: "'l \<Rightarrow> point3d \<Rightarrow> real"
  getClosestLanelet :: "'l list \<Rightarrow> pose \<Rightarrow> 'l option"
  getClosestLaneletWithConstrains :: "'l list \<Rightarrow> pose \<Rightarrow> real \<Rightarrow> 'l option"
  lineStringWithWidthToPolygon :: "'s \<Rightarrow> 'p option"
  getAllParkingSpaces :: "'s list"
  getAllParkingLots :: "'p list"
  project_on_fine_centerline :: "'l \<Rightarrow> point3d \<Rightarrow> point3d"
  setFineCenterline :: "'l \<Rightarrow> real \<Rightarrow> 'l"
  nearest_centerline_point :: "'l \<Rightarrow> point3d \<Rightarrow> point3d"
  convertBasicPoint3dToPose :: "point3d \<Rightarrow> real \<Rightarrow> pose"
  getYaw :: "quaternion \<Rightarrow> real"
  normalizeRadian :: "real \<Rightarrow> real"
  deg2rad :: "real \<Rightarrow> real"
  footprint_polygon :: "vehicle_info \<Rightarrow> pose \<Rightarrow> 'p"
  combine_lanelets_with_shoulder :: "'l list \<Rightarrow> 'l"
  getNextLanelets :: "'l \<Rightarrow> 'l list"
  getShoulderLaneletsAtPose :: "pose \<Rightarrow> 'l list"
  getRoadLaneletsAtPose :: "pose \<Rightarrow> 'l list"
  isRoadLanelet :: "'l \<Rightarrow> bool"
  planPathLaneletsBetweenCheckpoints :: "pose \<Rightarrow> pose \<Rightarrow> bool \<Rightarrow> 'l list option"
  createMapSegments :: "'l list \<Rightarrow> 'l list \<Rightarrow> lanelet_segment list"
  isRouteLooped :: "lanelet_segment list \<Rightarrow> bool"
  getLaneletsFromId :: "int \<Rightarrow> 'l"

text \<open>What the planner writes to its logger at warning level.\<close>

datatype warning =
  Failed_to_plan_route
  | Goals_footprint_exceeds_lane
  | Goal_is_not_valid
  | Loop_detected_within_route

text \<open>
  \<^verbatim>\<open>back()\<close> of an empty vector is undefined behaviour: the model stops with this fault.
\<close>

datatype fault = Back_of_empty_vector

section \<open>Geometry predicates\<close>

definition th_distance :: real where
  "th_distance = 1 / 2 ^ 52"

definition is_in_lane :: "('l, 'p, 's) collaborators \<Rightarrow> 'l \<Rightarrow> point3d \<Rightarrow> bool" where
  "is_in_lane env lanelet point =
     (distance env (polygon2d env lanelet) (to2D point) < th_distance)"

fun is_in_parking_space :: "('l, 'p, 's) collaborators \<Rightarrow> 's list \<Rightarrow> point3d \<Rightarrow> bool" where
  "is_in_parking_space env [] point = False"
| "is_in_parking_space env (parking_space # parking_spaces) point =
     (case lineStringWithWidthToPolygon env parking_space of
        None \<Rightarrow> is_in_parking_space env parking_spaces point
      | Some parking_space_polygon \<Rightarrow>
          if distance env parking_space_polygon (to2D point) < th_distance then True
          else is_in_parking_space env parking_spaces point)"

fun is_in_parking_lot :: "('l, 'p, 's) collaborators \<Rightarrow> 'p list \<Rightarrow> point3d \<Rightarrow> bool" where
  "is_in_parking_lot env [] point = False"
| "is_in_parking_lot env (parking_lot # parking_lots) point =
     (if distance env parking_lot (to2D point) < th_distance then True
      else is_in_parking_lot env parking_lots point)"

definition project_goal_to_map :: "('l, 'p, 's) collaborators \<Rightarrow> 'l \<Rightarrow> point3d \<Rightarrow> real" where
  "project_goal_to_map env lanelet_component goal_point =
     pz (project_on_fine_centerline env lanelet_component goal_point)"

section \<open>The containment search over following lanelets\<close>

text \<open>
  \<^verbatim>\<open>check_goal_footprint_inside_lanes\<close> recurses along the following lanelets of the map,
  which may form a cycle, so the model counts the depth of the recursion down: \<open>None\<close> is
  a search that has not returned within that depth. The in/out parameter
  \<^verbatim>\<open>next_lane_length\<close> is returned beside the result. \<open>check_following\<close> is the
  \<^verbatim>\<open>for\<close> loop over \<^verbatim>\<open>following\<close>. The recursive call leaves \<^verbatim>\<open>search_margin\<close>
  out, so it gets the declaration's default. The lengths are added, subtracted and compared
  as the doubles they are.
\<close>

fun check_goal_footprint_inside_lanes ::
    "nat \<Rightarrow> ('l, 'p, 's) collaborators \<Rightarrow> 'l default_planner \<Rightarrow> 'l \<Rightarrow> 'l \<Rightarrow> 'p \<Rightarrow> double
      \<Rightarrow> double \<Rightarrow> (bool \<times> double) option"
  and check_following ::
    "nat \<Rightarrow> ('l, 'p, 's) collaborators \<Rightarrow> 'l default_planner \<Rightarrow> 'l \<Rightarrow> 'p \<Rightarrow> 'l list \<Rightarrow> double
      \<Rightarrow> double \<Rightarrow> (bool \<times> double) option"
where
  "check_goal_footprint_inside_lanes 0 env dp current_lanelet combined_prev_lanelet
      goal_footprint next_lane_length search_margin = None"
| "check_goal_footprint_inside_lanes (Suc n) env dp current_lanelet combined_prev_lanelet
      goal_footprint next_lane_length search_margin =
     (if boost_within env goal_footprint (polygon2d env combined_prev_lanelet)
      then Some (True, next_lane_length)
      else check_following n env dp combined_prev_lanelet goal_footprint
             (getNextLanelets env current_lanelet) next_lane_length search_margin)"
| "check_following n env dp combined_prev_lanelet goal_footprint []
      next_lane_length search_margin = Some (False, next_lane_length)"
| "check_following n env dp combined_prev_lanelet goal_footprint (next_lane # following)
      next_lane_length search_margin =
     (let len1 = d_add next_lane_length (getLaneletLength2d env next_lane);
          combined_lanelets =
            combine_lanelets_with_shoulder env [combined_prev_lanelet, next_lane]
      in if d_less (d_add (max_longitudinal_offset_m (m_vehicle_info dp)) search_margin) len1
         then
           (let len2 = d_sub len1 (getLaneletLength2d env next_lane)
            in if boost_within env goal_footprint (polygon2d env combined_lanelets)
               then Some (True, len2)
               else check_following n env dp combined_prev_lanelet goal_footprint
                      following len2 search_margin)
         else
           (case check_goal_footprint_inside_lanes n env dp next_lane combined_lanelets
                   goal_footprint len1 (search_margin_default dp) of
              None \<Rightarrow> None
            | Some (found, len2) \<Rightarrow>
                if found then Some (True, len2)
                else check_following n env dp combined_prev_lanelet goal_footprint
                       following (d_sub len2 (getLaneletLength2d env next_lane))
                       search_margin))"

section \<open>Pose refinement\<close>

definition get_closest_centerline_pose ::
    "('l, 'p, 's) collaborators \<Rightarrow> 'l list \<Rightarrow> pose \<Rightarrow> vehicle_info \<Rightarrow> pose" where
  "get_closest_centerline_pose env road_lanelets point vehicle_info =
     (case getClosestLaneletWithConstrains env road_lanelets point 0 of
        None \<Rightarrow> point
      | Some found_lanelet \<Rightarrow>
          (let closest_lanelet = setFineCenterline env found_lanelet 1;
               lane_yaw = getLaneletAngle env closest_lanelet (position point);
               nearest_point = nearest_centerline_point env closest_lanelet (position point);
               shift_length = (right_overhang_m vehicle_info - left_overhang_m vehicle_info) / 2;
               delta_x = - shift_length * sin lane_yaw;
               delta_y = shift_length * cos lane_yaw;
               refined_point =
                 \<lparr>px = px nearest_point + delta_x, py = py nearest_point + delta_y,
                  pz = pz nearest_point\<rparr>
           in convertBasicPoint3dToPose env refined_point lane_yaw))"

text \<open>
  \<^verbatim>\<open>refine_goal_height\<close> reads \<^verbatim>\<open>route_sections.back()\<close> with no test of emptiness.
\<close>

definition refine_goal_height ::
    "('l, 'p, 's) collaborators \<Rightarrow> pose \<Rightarrow> lanelet_segment list \<Rightarrow> fault + pose" where
  "refine_goal_height env goal route_sections =
     (if route_sections = [] then Inl Back_of_empty_vector
      else
        (let goal_lane_id = prim_id (preferred_primitive (last route_sections));
             goal_lanelet = getLaneletsFromId env goal_lane_id;
             goal_lanelet_pt = position goal;
             goal_height = project_goal_to_map env goal_lanelet goal_lanelet_pt
         in Inr (goal\<lparr>position := (position goal)\<lparr>pz := goal_height\<rparr>\<rparr>)))"

section \<open>The goal validator\<close>

text \<open>
  The test of the angle, written twice in \<^verbatim>\<open>is_goal_valid\<close> (for the shoulder lanelet and
  for the closest road lanelet).
\<close>

definition angle_diff_of :: "('l, 'p, 's) collaborators \<Rightarrow> 'l \<Rightarrow> pose \<Rightarrow> real" where
  "angle_diff_of env lanelet goal =
     (let lane_yaw = getLaneletAngle env lanelet (position goal);
          goal_yaw = getYaw env (orientation goal)
      in normalizeRadian env (lane_yaw - goal_yaw))"

definition th_angle :: "('l, 'p, 's) collaborators \<Rightarrow> 'l default_planner \<Rightarrow> real" where
  "th_angle env dp = deg2rad env (goal_angle_threshold_deg (m_param dp))"

text \<open>Lines 298 to 310: the goal is in a shoulder lanelet, at an angle below the threshold.\<close>

definition goal_in_shoulder_lanelet ::
    "('l, 'p, 's) collaborators \<Rightarrow> 'l default_planner \<Rightarrow> pose \<Rightarrow> bool" where
  "goal_in_shoulder_lanelet env dp goal =
     (case getClosestLanelet env (getShoulderLaneletsAtPose env goal) goal of
        None \<Rightarrow> False
      | Some closest_shoulder_lanelet \<Rightarrow>
          \<bar>angle_diff_of env closest_shoulder_lanelet goal\<bar> < th_angle env dp)"

text \<open>
  The functor given to \<^verbatim>\<open>nearestUntil\<close>, run over the lanelets in the order of the
  search. The state is \<^verbatim>\<open>closest_dist\<close> with \<^verbatim>\<open>closest_lanelet\<close>; \<open>None\<close> is the
  initial state, where \<^verbatim>\<open>closest_dist\<close> is the largest \<^verbatim>\<open>double\<close>: no distance is
  above it and every distance is below it. The search finds something only when the functor
  stops it; the result is then \<^verbatim>\<open>closest_lanelet\<close>.
\<close>

fun nearestUntil_road ::
    "('l, 'p, 's) collaborators \<Rightarrow> point2d \<Rightarrow> 'l list \<Rightarrow> (real \<times> 'l) option \<Rightarrow> 'l option" where
  "nearestUntil_road env goal_point [] closest = None"
| "nearestUntil_road env goal_point (ll # lls) closest =
     (if (case closest of None \<Rightarrow> False
          | Some (closest_dist, _) \<Rightarrow> bbox_distance2d env ll goal_point > closest_dist)
      then map_option snd closest
      else
        (let dist = distance2d env goal_point ll
         in if isRoadLanelet env ll \<and>
               (case closest of None \<Rightarrow> True | Some (closest_dist, _) \<Rightarrow> dist < closest_dist)
            then nearestUntil_road env goal_point lls (Some (dist, ll))
            else nearestUntil_road env goal_point lls closest))"

text \<open>Lines 311 to 332: the closest road lanelet, or \<open>None\<close> where the source returns false.\<close>

definition closest_road_lanelet :: "('l, 'p, 's) collaborators \<Rightarrow> pose \<Rightarrow> 'l option" where
  "closest_road_lanelet env goal =
     (case getClosestLanelet env (getRoadLaneletsAtPose env goal) goal of
        Some closest_lanelet \<Rightarrow> Some closest_lanelet
      | None \<Rightarrow>
          (let goal_point = (px (position goal), py (position goal))
           in nearestUntil_road env goal_point (nearest_order env goal_point) None))"

text \<open>
  Lines 345 to 352: the condition of the rejection ``Goal's footprint exceeds lane!'', with
  the short-circuit evaluation of \<^verbatim>\<open>&&\<close>.
\<close>

definition footprint_exceeds_lane ::
    "nat \<Rightarrow> ('l, 'p, 's) collaborators \<Rightarrow> 'l default_planner \<Rightarrow> pose \<Rightarrow> 'l list \<Rightarrow> 'l
      \<Rightarrow> bool option" where
  "footprint_exceeds_lane fuel env dp goal path_lanelets closest_lanelet =
     (let polygon_footprint = footprint_polygon env (m_vehicle_info dp) goal;
          next_lane_length = Double 0 0;
          combined_prev_lanelet = combine_lanelets_with_shoulder env path_lanelets
      in if \<not> check_footprint_inside_lanes (m_param dp) then Some False
         else
           (case check_goal_footprint_inside_lanes fuel env dp closest_lanelet
                   combined_prev_lanelet polygon_footprint next_lane_length
                   (search_margin_default dp) of
              None \<Rightarrow> None
            | Some (inside, _) \<Rightarrow>
                if inside then Some False
                else Some (\<not> is_in_parking_lot env (getAllParkingLots env) (position goal))))"

text \<open>Lines 357 to 366: the goal is on the closest lanelet, at an angle below the threshold.\<close>

definition goal_on_lane ::
    "('l, 'p, 's) collaborators \<Rightarrow> 'l default_planner \<Rightarrow> 'l \<Rightarrow> pose \<Rightarrow> bool" where
  "goal_on_lane env dp closest_lanelet goal =
     (if is_in_lane env closest_lanelet (position goal)
      then \<bar>angle_diff_of env closest_lanelet goal\<bar> < th_angle env dp
      else False)"

text \<open>
  \<^verbatim>\<open>is_goal_valid\<close> returns its result with the warnings it logs; \<open>None\<close> is a call
  whose containment search has not returned. The debug marker it publishes is left out.
\<close>

definition is_goal_valid ::
    "nat \<Rightarrow> ('l, 'p, 's) collaborators \<Rightarrow> 'l default_planner \<Rightarrow> pose \<Rightarrow> 'l list
      \<Rightarrow> (bool \<times> warning list) option" where
  "is_goal_valid fuel env dp goal path_lanelets =
     (let goal_lanelet_pt = position goal
      in if goal_in_shoulder_lanelet env dp goal then Some (True, [])
         else
           (case closest_road_lanelet env goal of
              None \<Rightarrow> Some (False, [])
            | Some closest_lanelet \<Rightarrow>
                (case footprint_exceeds_lane fuel env dp goal path_lanelets closest_lanelet of
                   None \<Rightarrow> None
                 | Some exceeds \<Rightarrow>
                     if exceeds then Some (False, [Goals_footprint_exceeds_lane])
                     else if goal_on_lane env dp closest_lanelet goal then Some (True, [])
                     else if is_in_parking_space env (getAllParkingSpaces env) goal_lanelet_pt
                       then Some (True, [])
                     else if is_in_parking_lot env (getAllParkingLots env) goal_lanelet_pt
                       then Some (True, [])
                     else Some (False, []))))"

section \<open>The route composer\<close>

text \<open>Lines 412 to 415: the lanelets of one path are pushed unless the id repeats the last one.\<close>

fun push_path_lanelets :: "('l, 'p, 's) collaborators \<Rightarrow> 'l list \<Rightarrow> 'l list \<Rightarrow> 'l list" where
  "push_path_lanelets env all_route_lanelets [] = all_route_lanelets"
| "push_path_lanelets env all_route_lanelets (lane # path_lanelets) =
     (if all_route_lanelets \<noteq> [] \<and> lanelet_id env lane = lanelet_id env (last all_route_lanelets)
      then push_path_lanelets env all_route_lanelets path_lanelets
      else push_path_lanelets env (all_route_lanelets @ [lane]) path_lanelets)"

text \<open>
  Lines 402 to 416: the loop over the consecutive pairs of check points; \<open>None\<close> is the
  early return after ``Failed to plan route.''.
\<close>

fun plan_route_lanelets ::
    "('l, 'p, 's) collaborators \<Rightarrow> 'l default_planner \<Rightarrow> pose list \<Rightarrow> 'l list \<Rightarrow> 'l list option" where
  "plan_route_lanelets env dp (start_check_point # goal_check_point # points) all_route_lanelets =
     (case planPathLaneletsBetweenCheckpoints env start_check_point goal_check_point
             (consider_no_drivable_lanes (m_param dp)) of
        None \<Rightarrow> None
      | Some path_lanelets \<Rightarrow>
          plan_route_lanelets env dp (goal_check_point # points)
            (push_path_lanelets env all_route_lanelets path_lanelets))"
| "plan_route_lanelets env dp points all_route_lanelets = Some all_route_lanelets"

text \<open>
  Lines 420 to 425: the goal pose that is validated. The caller has tested that there is a
  check point.
\<close>

definition plan_goal_pose ::
    "('l, 'p, 's) collaborators \<Rightarrow> 'l default_planner \<Rightarrow> pose list \<Rightarrow> pose" where
  "plan_goal_pose env dp points =
     (let goal_pose = last points
      in if enable_correct_goal_pose (m_param dp)
         then get_closest_centerline_pose env (laneletLayer env) goal_pose (m_vehicle_info dp)
         else goal_pose)"

text \<open>
  What a call of \<^verbatim>\<open>plan\<close> leaves: the warnings logged, the route returned and the planner
  with the route lanelets of its handler.
\<close>

record 'l plan_result =
  logged :: "warning list"
  returned :: lanelet_route
  planner :: "'l default_planner"

text \<open>\<^verbatim>\<open>setRouteLanelets\<close>, as far as this file reads what it stores.\<close>

definition setRouteLanelets :: "'l default_planner \<Rightarrow> 'l list \<Rightarrow> 'l default_planner" where
  "setRouteLanelets dp all_route_lanelets = dp\<lparr>m_route_lanelets := all_route_lanelets\<rparr>"

text \<open>
  \<^verbatim>\<open>plan\<close>. \<open>None\<close> is a call that has not returned, \<open>Some (Inl f)\<close> one that ran into
  undefined behaviour: \<^verbatim>\<open>points.back()\<close> with no check point, or
  \<^verbatim>\<open>route_sections.back()\<close> in \<^verbatim>\<open>refine_goal_height\<close>. Every early return gives
  \<^verbatim>\<open>route_msg\<close> as it was constructed.
\<close>

definition plan ::
    "nat \<Rightarrow> ('l, 'p, 's) collaborators \<Rightarrow> 'l default_planner \<Rightarrow> pose list
      \<Rightarrow> (fault + 'l plan_result) option" where
  "plan fuel env dp points =
     (let route_msg = route_msg_default
      in case plan_route_lanelets env dp points [] of
           None \<Rightarrow>
             Some (Inr \<lparr>logged = [Failed_to_plan_route], returned = route_msg, planner = dp\<rparr>)
         | Some all_route_lanelets \<Rightarrow>
             (let dp1 = setRouteLanelets dp all_route_lanelets;
                  route_sections =
                    createMapSegments env (m_route_lanelets dp1) all_route_lanelets
              in if points = [] then Some (Inl Back_of_empty_vector)
                 else
                   (let goal_pose = plan_goal_pose env dp1 points
                    in case is_goal_valid fuel env dp1 goal_pose all_route_lanelets of
                         None \<Rightarrow> None
                       | Some (valid, warnings) \<Rightarrow>
                           if \<not> valid then
                             Some (Inr \<lparr>logged = warnings @ [Goal_is_not_valid],
                                        returned = route_msg, planner = dp1\<rparr>)
                           else if isRouteLooped env route_sections then
                             Some (Inr \<lparr>logged = warnings @ [Loop_detected_within_route],
                                        returned = route_msg, planner = dp1\<rparr>)
                           else
                             (case refine_goal_height env goal_pose route_sections of
                                Inl f \<Rightarrow> Some (Inl f)
                              | Inr refined_goal \<Rightarrow>
                                  Some (Inr \<lparr>logged = warnings,
                                             returned =
                                               \<lparr>start_pose = hd points, goal_pose = refined_goal,
                                                segments = route_sections\<rparr>,
                                             planner = dp1\<rparr>)))))"

section \<open>The merge of lanelets\<close>

text \<open>
  Modelled from the spec: \<^verbatim>\<open>combine_lanelets_with_shoulder\<close> is defined in
  \<^verbatim>\<open>utility_functions.cpp\<close>, which is not among the sources. The spec has it merge the
  accumulated polygon with the next segment into a combined polygon, by a polygon union
  after the shoulder lanes are combined with their road lanes. What is used of it is that
  the union keeps what a part contains: a footprint within the polygon of the accumulated
  lanelet is within the polygon of the lanelet combined from it and a next one.
\<close>

definition merge_is_union :: "('l, 'p, 's) collaborators \<Rightarrow> 'p \<Rightarrow> bool" where
  "merge_is_union env goal_footprint \<longleftrightarrow>
     (\<forall>combined_prev_lanelet next_lane.
        boost_within env goal_footprint (polygon2d env combined_prev_lanelet) \<longrightarrow>
        boost_within env goal_footprint
          (polygon2d env
             (combine_lanelets_with_shoulder env [combined_prev_lanelet, next_lane])))"

section \<open>An example map\<close>

text \<open>
  A map small enough to run the planner on by hand. The road is a row of unit cells along
  the x axis; a lanelet or a polygon is the list of the cells it covers, so combining
  lanelets appends their cells and a polygon is within another when its cells are among the
  other's. The lanelets \<open>[1]\<close>, \<open>[2]\<close> and \<open>[3]\<close> follow each other in a ring, each 3
  long; cell 5 is a parking lot and cell 6 a parking space. The road climbs by 1 in 10, and
  a point is projected on the centerline straight down. A footprint covers the cell of its
  pose and the cell 1 ahead.
\<close>

definition cell_of :: "real \<Rightarrow> nat" where
  "cell_of r = nat \<lfloor>r\<rfloor>"

fun cell_distance :: "nat list \<Rightarrow> point2d \<Rightarrow> real" where
  "cell_distance [] p = 1000"
| "cell_distance (c # cs) p =
     min (if fst p < real c then real c - fst p
          else if real c + 1 < fst p then fst p - (real c + 1) else 0)
         (cell_distance cs p)"

definition ring_next :: "nat list \<Rightarrow> nat list list" where
  "ring_next l =
     (case l of
        [c] \<Rightarrow> if c = 1 then [[2]] else if c = 2 then [[3]] else if c = 3 then [[1]] else []
      | _ \<Rightarrow> [])"

definition ring_path :: "nat \<Rightarrow> nat \<Rightarrow> nat list list option" where
  "ring_path a b =
     (if a \<notin> {1, 2, 3} \<or> b \<notin> {1, 2, 3} then None
      else if a = b then Some [[a]]
      else if ring_next [a] = [[b]] then Some [[a], [b]]
      else Some ([a] # ring_next [a] @ [[b]]))"

definition cell_id :: "nat list \<Rightarrow> int" where
  "cell_id l = (case l of [c] \<Rightarrow> int c | _ \<Rightarrow> 0)"

definition ring_segment :: "nat list \<Rightarrow> lanelet_segment" where
  "ring_segment l =
     \<lparr>preferred_primitive = \<lparr>prim_id = cell_id l, primitive_type = ''lane''\<rparr>,
      primitives = [\<lparr>prim_id = cell_id l, primitive_type = ''lane''\<rparr>]\<rparr>"

definition on_centerline :: "point3d \<Rightarrow> point3d" where
  "on_centerline p = \<lparr>px = px p, py = 1 / 2, pz = px p / 10\<rparr>"

definition ring_world :: "(nat list, nat list, nat list) collaborators" where
  "ring_world =
     \<lparr>lanelet_id = cell_id,
      polygon2d = (\<lambda>l. l),
      boost_within = (\<lambda>a b. set a \<subseteq> set b),
      distance = cell_distance,
      distance2d = (\<lambda>p l. cell_distance l p),
      bbox_distance2d = cell_distance,
      nearest_order = (\<lambda>p. sort_key (\<lambda>l. cell_distance l p) [[1], [2], [3]]),
      laneletLayer = [[1], [2], [3]],
      getLaneletLength2d = (\<lambda>l. round_double (3 * int (length l)) 0),
      getLaneletAngle = (\<lambda>l p. 0),
      getClosestLanelet = (\<lambda>ls p. case ls of [] \<Rightarrow> None | l # _ \<Rightarrow> Some l),
      getClosestLaneletWithConstrains =
        (\<lambda>ls p d. find (\<lambda>l. cell_distance l (to2D (position p)) \<le> d) ls),
      lineStringWithWidthToPolygon = (\<lambda>s. if s = [] then None else Some s),
      getAllParkingSpaces = [[6]],
      getAllParkingLots = [[5]],
      project_on_fine_centerline = (\<lambda>l. on_centerline),
      setFineCenterline = (\<lambda>l r. l),
      nearest_centerline_point = (\<lambda>l. on_centerline),
      convertBasicPoint3dToPose =
        (\<lambda>p yaw. \<lparr>position = p,
                   orientation = \<lparr>qx = 0, qy = 0, qz = sin (yaw / 2), qw = cos (yaw / 2)\<rparr>\<rparr>),
      getYaw = (\<lambda>q. 2 * arctan (qz q / qw q)),
      normalizeRadian =
        (\<lambda>r. if - pi \<le> r \<and> r < pi then r
             else r - 2 * pi * real_of_int \<lfloor>(r + pi) / (2 * pi)\<rfloor>),
      deg2rad = (\<lambda>d. d * pi / 180),
      footprint_polygon =
        (\<lambda>v p. [cell_of (px (position p)), cell_of (px (position p) + 1)]),
      combine_lanelets_with_shoulder = concat,
      getNextLanelets = ring_next,
      getShoulderLaneletsAtPose = (\<lambda>p. []),
      getRoadLaneletsAtPose =
        (\<lambda>p. filter (\<lambda>l. cell_distance l (to2D (position p)) \<le> 0) [[1], [2], [3]]),
      isRoadLanelet = (\<lambda>l. length l = 1),
      planPathLaneletsBetweenCheckpoints =
        (\<lambda>s g c. ring_path (cell_of (px (position s))) (cell_of (px (position g)))),
      createMapSegments = (\<lambda>route_lanelets ls. map ring_segment ls),
      isRouteLooped = (\<lambda>secs. \<not> distinct (map (\<lambda>s. prim_id (preferred_primitive s)) secs)),
      getLaneletsFromId = (\<lambda>i. [nat i])\<rparr>"

text \<open>
  A vehicle with a longitudinal offset of 1, a threshold of 10 degrees (or of 90 degrees,
  for the planner \<open>wide_planner\<close>) and a search margin of 2.
\<close>

definition planner_with_threshold :: "real \<Rightarrow> nat list default_planner" where
  "planner_with_threshold deg =
     \<lparr>m_vehicle_info =
        \<lparr>max_longitudinal_offset_m = Double 1 0, left_overhang_m = 1 / 2,
         right_overhang_m = 1 / 2\<rparr>,
      m_param =
        \<lparr>goal_angle_threshold_deg = deg, enable_correct_goal_pose = False,
         consider_no_drivable_lanes = False, check_footprint_inside_lanes = True\<rparr>,
      search_margin_default = Double 1 1,
      m_route_lanelets = []\<rparr>"

definition ring_planner :: "nat list default_planner" where
  "ring_planner = planner_with_threshold 10"

definition wide_planner :: "nat list default_planner" where
  "wide_planner = planner_with_threshold 90"

text \<open>A pose over the point \<open>r\<close> of the x axis, heading along the road or across it.\<close>

definition pose_at :: "real \<Rightarrow> pose" where
  "pose_at r =
     \<lparr>position = \<lparr>px = r, py = 1 / 2, pz = 0\<rparr>,
      orientation = \<lparr>qx = 0, qy = 0, qz = 0, qw = 1\<rparr>\<rparr>"

definition pose_turned :: "real \<Rightarrow> pose" where
  "pose_turned r =
     \<lparr>position = \<lparr>px = r, py = 1 / 2, pz = 0\<rparr>,
      orientation = \<lparr>qx = 0, qy = 0, qz = 1, qw = 1\<rparr>\<rparr>"

text \<open>
  The same map with lanelets of other lengths. In \<open>tenths_world\<close> lanelet \<open>[2]\<close> is
  0.1 long and lanelet \<open>[3]\<close> 0.2 long, that is the doubles nearest to these numbers; the
  planner \<open>eighths_planner\<close> has an offset and a margin of 0.125 each. In \<open>long_world\<close>
  lanelet \<open>[2]\<close> is 5.9 long, and \<open>long_planner\<close> has an offset of 3.9 and a margin of 2.
\<close>

definition tenth :: double where
  "tenth = Double 3602879701896397 (- 55)"

definition two_tenths :: double where
  "two_tenths = Double 3602879701896397 (- 54)"

definition tenths_world :: "(nat list, nat list, nat list) collaborators" where
  "tenths_world =
     ring_world\<lparr>getLaneletLength2d := (\<lambda>l. if l = [2] then tenth else two_tenths)\<rparr>"

definition eighths_planner :: "nat list default_planner" where
  "eighths_planner =
     ring_planner
       \<lparr>m_vehicle_info := (m_vehicle_info ring_planner)\<lparr>max_longitudinal_offset_m := Double 1 (- 3)\<rparr>,
        search_margin_default := Double 1 (- 3)\<rparr>"

definition long_world :: "(nat list, nat list, nat list) collaborators" where
  "long_world =
     ring_world\<lparr>getLaneletLength2d := (\<lambda>l. Double 3321404725185741 (- 49))\<rparr>"

definition long_planner :: "nat list default_planner" where
  "long_planner =
     ring_planner
       \<lparr>m_vehicle_info :=
          (m_vehicle_info ring_planner)\<lparr>max_longitudinal_offset_m := Double 8782019273372467 (- 51)\<rparr>\<rparr>"

text \<open>
  The map with a centerline that climbs at 45 degrees from the origin, along \<open>z = x\<close>, and
  the orthogonal projection in space on it, which is what \<^verbatim>\<open>lanelet::geometry::project\<close>
  computes for a three-dimensional line string and point: the foot of the perpendicular from
  \<open>(x, y, z)\<close> is at \<open>(x + z) / 2\<close> along both axes.
\<close>

definition project_on_slope :: "point3d \<Rightarrow> point3d" where
  "project_on_slope p = \<lparr>px = (px p + pz p) / 2, py = 1 / 2, pz = (px p + pz p) / 2\<rparr>"

definition sloped_world :: "(nat list, nat list, nat list) collaborators" where
  "sloped_world = ring_world\<lparr>project_on_fine_centerline := (\<lambda>l. project_on_slope)\<rparr>"


section \<open>Facts about the example map\<close>

declare normalize_double.simps [simp del]

declare bit_length.simps [simp del]

lemmas double_eval =
  normalize_double.simps bit_length.simps round_double_def d_sub_def Let_def

lemma ring_world_simps [simp]:
  "lanelet_id ring_world = cell_id"
  "polygon2d ring_world = (\<lambda>l. l)"
  "boost_within ring_world = (\<lambda>a b. set a \<subseteq> set b)"
  "distance ring_world = cell_distance"
  "distance2d ring_world = (\<lambda>p l. cell_distance l p)"
  "bbox_distance2d ring_world = cell_distance"
  "nearest_order ring_world = (\<lambda>p. sort_key (\<lambda>l. cell_distance l p) [[1], [2], [3]])"
  "laneletLayer ring_world = [[1], [2], [3]]"
  "getLaneletLength2d ring_world = (\<lambda>l. round_double (3 * int (length l)) 0)"
  "getLaneletAngle ring_world = (\<lambda>l p. 0)"
  "getClosestLanelet ring_world = (\<lambda>ls p. case ls of [] \<Rightarrow> None | l # _ \<Rightarrow> Some l)"
  "lineStringWithWidthToPolygon ring_world = (\<lambda>s. if s = [] then None else Some s)"
  "getAllParkingSpaces ring_world = [[6]]"
  "getAllParkingLots ring_world = [[5]]"
  "project_on_fine_centerline ring_world = (\<lambda>l. on_centerline)"
  "getYaw ring_world = (\<lambda>q. 2 * arctan (qz q / qw q))"
  "normalizeRadian ring_world =
     (\<lambda>r. if - pi \<le> r \<and> r < pi then r
          else r - 2 * pi * real_of_int \<lfloor>(r + pi) / (2 * pi)\<rfloor>)"
  "deg2rad ring_world = (\<lambda>d. d * pi / 180)"
  "footprint_polygon ring_world =
     (\<lambda>v p. [cell_of (px (position p)), cell_of (px (position p) + 1)])"
  "combine_lanelets_with_shoulder ring_world = concat"
  "getNextLanelets ring_world = ring_next"
  "getShoulderLaneletsAtPose ring_world = (\<lambda>p. [])"
  "getRoadLaneletsAtPose ring_world =
     (\<lambda>p. filter (\<lambda>l. cell_distance l (to2D (position p)) \<le> 0) [[1], [2], [3]])"
  "isRoadLanelet ring_world = (\<lambda>l. length l = 1)"
  "planPathLaneletsBetweenCheckpoints ring_world =
     (\<lambda>s g c. ring_path (cell_of (px (position s))) (cell_of (px (position g))))"
  "createMapSegments ring_world = (\<lambda>route_lanelets ls. map ring_segment ls)"
  "isRouteLooped ring_world =
     (\<lambda>secs. \<not> distinct (map (\<lambda>s. prim_id (preferred_primitive s)) secs))"
  "getLaneletsFromId ring_world = (\<lambda>i. [nat i])"
  by (simp_all add: ring_world_def)

lemma planner_with_threshold_simps [simp]:
  "max_longitudinal_offset_m (m_vehicle_info (planner_with_threshold deg)) = Double 1 0"
  "goal_angle_threshold_deg (m_param (planner_with_threshold deg)) = deg"
  "enable_correct_goal_pose (m_param (planner_with_threshold deg)) = False"
  "consider_no_drivable_lanes (m_param (planner_with_threshold deg)) = False"
  "check_footprint_inside_lanes (m_param (planner_with_threshold deg)) = True"
  "search_margin_default (planner_with_threshold deg) = Double 1 1"
  "m_route_lanelets (planner_with_threshold deg) = []"
  "m_vehicle_info (setRouteLanelets (planner_with_threshold deg) ls) =
     m_vehicle_info (planner_with_threshold deg)"
  "m_param (setRouteLanelets (planner_with_threshold deg) ls) =
     m_param (planner_with_threshold deg)"
  "search_margin_default (setRouteLanelets (planner_with_threshold deg) ls) = Double 1 1"
  "m_route_lanelets (setRouteLanelets (planner_with_threshold deg) ls) = ls"
  by (simp_all add: planner_with_threshold_def setRouteLanelets_def)

lemma position_at [simp]: "position (pose_at r) = \<lparr>px = r, py = 1 / 2, pz = 0\<rparr>"
  by (simp add: pose_at_def)

lemma position_turned [simp]: "position (pose_turned r) = \<lparr>px = r, py = 1 / 2, pz = 0\<rparr>"
  by (simp add: pose_turned_def)

lemma ring_angle_straight [simp]: "angle_diff_of ring_world l (pose_at r) = 0"
  using pi_gt_zero by (simp add: angle_diff_of_def pose_at_def Let_def)

lemma ring_angle_turned [simp]: "angle_diff_of ring_world l (pose_turned r) = - (pi / 2)"
  using pi_gt_zero by (simp add: angle_diff_of_def pose_turned_def arctan_one Let_def)

lemma ring_th_angle [simp]:
  "th_angle ring_world (planner_with_threshold deg) = deg * pi / 180"
  "th_angle ring_world (setRouteLanelets (planner_with_threshold deg) ls) = deg * pi / 180"
  by (simp_all add: th_angle_def)

lemma quarter_turn_above_threshold [simp]: "\<not> pi * 9 < pi"
  using pi_gt_zero by auto

lemmas ring_eval =
  is_goal_valid_def goal_in_shoulder_lanelet_def footprint_exceeds_lane_def goal_on_lane_def
  closest_road_lanelet_def is_in_lane_def plan_def plan_goal_pose_def refine_goal_height_def
  project_goal_to_map_def on_centerline_def ring_planner_def wide_planner_def
  ring_path_def ring_segment_def cell_id_def
  to2D_def sort_key_def ring_next_def cell_of_def th_distance_def Let_def
  normalize_double.simps bit_length.simps round_double_def d_sub_def
  tenth_def two_tenths_def tenths_world_def eighths_planner_def long_world_def long_planner_def

section \<open>Properties of the double precision numbers\<close>

text \<open>The comparison is the comparison of the numbers the values stand for.\<close>

lemma real_of_double_Double:
  "real_of_double (Double m e) = real_of_int m * 2 powi e"
  by (simp add: real_of_double_def power_int_def power_one_over)

lemma d_less_iff: "d_less a b \<longleftrightarrow> real_of_double a < real_of_double b"
proof (cases a; cases b)
  fix m1 e1 m2 e2
  assume a: "a = Double m1 e1" and b: "b = Double m2 e2"
  define e where "e = min e1 e2"
  have shift: "real_of_int (m * 2 ^ nat (k - e)) * 2 powi e = real_of_int m * 2 powi k"
    if "e \<le> k" for m k :: int
  proof -
    have "(2::real) powi (k - e) = 2 ^ nat (k - e)"
      using that by (simp add: power_int_def)
    then have "real_of_int (m * 2 ^ nat (k - e)) * 2 powi e =
        real_of_int m * (2 powi (k - e) * 2 powi e)"
      by simp
    also have "(2::real) powi (k - e) * 2 powi e = 2 powi k"
      by (simp add: power_int_add [symmetric])
    finally show ?thesis .
  qed
  have "d_less a b \<longleftrightarrow> m1 * 2 ^ nat (e1 - e) < m2 * 2 ^ nat (e2 - e)"
    by (simp add: a b e_def Let_def)
  also have "\<dots> \<longleftrightarrow>
      real_of_int (m1 * 2 ^ nat (e1 - e)) * 2 powi e < real_of_int (m2 * 2 ^ nat (e2 - e)) * 2 powi e"
    by (simp del: of_int_mult of_int_power)
  also have "\<dots> \<longleftrightarrow> real_of_int m1 * 2 powi e1 < real_of_int m2 * 2 powi e2"
  proof -
    have "real_of_int (m1 * 2 ^ nat (e1 - e)) * 2 powi e = real_of_int m1 * 2 powi e1"
      by (rule shift) (simp add: e_def)
    moreover have "real_of_int (m2 * 2 ^ nat (e2 - e)) * 2 powi e = real_of_int m2 * 2 powi e2"
      by (rule shift) (simp add: e_def)
    ultimately show ?thesis by (simp only:)
  qed
  finally show ?thesis
    by (simp add: a b real_of_double_Double)
qed

text \<open>The doubles nearest to 0.1, 0.2, 3.9 and 5.9: each is within half a unit of its last place.\<close>

lemma decimal_doubles:
  "\<bar>real_of_double tenth - 1 / 10\<bar> < 1 / 2 ^ 57"
  "\<bar>real_of_double two_tenths - 2 / 10\<bar> < 1 / 2 ^ 56"
  "\<bar>real_of_double (Double 8782019273372467 (- 51)) - 39 / 10\<bar> < 1 / 2 ^ 52"
  "\<bar>real_of_double (Double 3321404725185741 (- 49)) - 59 / 10\<bar> < 1 / 2 ^ 51"
  by (simp_all add: real_of_double_def tenth_def two_tenths_def)

lemma real_of_normalize_double:
  "real_of_double (normalize_double m e) = real_of_int m * 2 powi e"
proof (induction m e rule: normalize_double.induct)
  case (1 m e)
  show ?case
  proof (cases "m = 0")
    case True
    then show ?thesis by (simp add: normalize_double.simps real_of_double_Double)
  next
    case nonzero: False
    show ?thesis
    proof (cases "even m")
      case True
      then obtain k where k: "m = 2 * k" by (auto elim: evenE)
      have "real_of_double (normalize_double m e) =
          real_of_double (normalize_double (m div 2) (e + 1))"
        using nonzero True by (subst normalize_double.simps) simp
      also have "\<dots> = real_of_int (m div 2) * 2 powi (e + 1)"
        using "1.IH" nonzero True by simp
      also have "\<dots> = real_of_int m * 2 powi e"
        using k by (simp add: power_int_add)
      finally show ?thesis .
    next
      case False
      with nonzero show ?thesis
        by (simp add: normalize_double.simps real_of_double_Double)
    qed
  qed
qed

lemma bit_length_bound: "n < 2 ^ bit_length n"
proof (induction n rule: bit_length.induct)
  case (1 n)
  show ?case
  proof (cases "n = 0")
    case True
    then show ?thesis by (simp add: bit_length.simps)
  next
    case False
    with 1 have "n div 2 < 2 ^ bit_length (n div 2)" by simp
    then have "n < 2 * 2 ^ bit_length (n div 2)" by linarith
    with False show ?thesis by (subst bit_length.simps) simp
  qed
qed

text \<open>
  Rounding to 53 bits moves a number by at most half a unit of the last place kept, and not
  at all when the number has no more than 53 bits.
\<close>

lemma round_double_exact:
  "bit_length (nat \<bar>m\<bar>) \<le> 53 \<Longrightarrow> real_of_double (round_double m e) = real_of_int m * 2 powi e"
  by (simp add: round_double_def Let_def real_of_normalize_double)

lemma round_double_nearest:
  assumes "53 < bit_length (nat \<bar>m\<bar>)"
  shows "\<bar>real_of_double (round_double m e) - real_of_int m * 2 powi e\<bar>
         \<le> 2 powi (e + int (bit_length (nat \<bar>m\<bar>) - 53)) / 2"
proof -
  define a where "a = nat \<bar>m\<bar>"
  define s where "s = bit_length a - 53"
  define q where "q = a div 2 ^ s"
  define r where "r = a mod 2 ^ s"
  define h :: nat where "h = 2 ^ (s - 1)"
  define rounded where
    "rounded = (if r < h then q else if h < r then q + 1 else if even q then q else q + 1)"
  from assms have s_pos: "0 < s" by (simp add: s_def a_def)
  then have two_h: "2 * h = 2 ^ s"
    by (cases s) (simp_all add: h_def)
  have a_split: "a = q * 2 ^ s + r"
    unfolding q_def r_def by (rule div_mult_mod_eq [symmetric])
  have r_less: "r < 2 ^ s" by (simp add: r_def)
  have close: "\<bar>int rounded * 2 ^ s - int a\<bar> \<le> int h"
  proof -
    have "int a = int q * 2 ^ s + int r"
      using a_split by (metis of_nat_add of_nat_mult of_nat_numeral of_nat_power)
    moreover have "int r < 2 * int h" using r_less two_h by linarith
    moreover have "(2::int) ^ s = 2 * int h" using two_h by (metis of_nat_mult of_nat_numeral of_nat_power)
    ultimately show ?thesis
      by (auto simp: rounded_def algebra_simps)
  qed
  have result: "round_double m e = normalize_double (sgn m * int rounded) (e + int s)"
  proof -
    from assms have "\<not> bit_length (nat \<bar>m\<bar>) \<le> 53" by simp
    then show ?thesis
      unfolding round_double_def Let_def rounded_def h_def r_def q_def s_def a_def
      by (simp only: if_False)
  qed
  have m_a: "m = sgn m * int a" by (cases "0 \<le> m") (simp_all add: a_def sgn_if)
  have "real_of_double (round_double m e) - real_of_int m * 2 powi e =
      real_of_int (sgn m * int rounded) * 2 powi (e + int s) - real_of_int (sgn m * int a) * 2 powi e"
    using m_a by (simp add: result real_of_normalize_double)
  also have "\<dots> = real_of_int (sgn m) * real_of_int (int rounded * 2 ^ s - int a) * 2 powi e"
    by (simp add: power_int_add algebra_simps)
  finally have "\<bar>real_of_double (round_double m e) - real_of_int m * 2 powi e\<bar> =
      \<bar>real_of_int (sgn m)\<bar> * \<bar>real_of_int (int rounded * 2 ^ s - int a)\<bar> * 2 powi e"
    by (simp add: abs_mult)
  also have "\<dots> \<le> 1 * real_of_int (int h) * 2 powi e"
  proof -
    have "\<bar>real_of_int (sgn m)\<bar> \<le> 1" by (simp add: sgn_if)
    moreover have "\<bar>real_of_int (int rounded * 2 ^ s - int a)\<bar> \<le> real_of_int (int h)"
      using close by linarith
    ultimately show ?thesis
      by (intro mult_right_mono mult_mono) simp_all
  qed
  also have "\<dots> = 2 powi (e + int s) / 2"
  proof -
    have "2 * real h = 2 ^ s" using two_h by (metis of_nat_mult of_nat_numeral of_nat_power)
    then show ?thesis by (simp add: power_int_add)
  qed
  finally show ?thesis by (simp add: s_def a_def)
qed

text \<open>
  Addition and subtraction round the exact sum and the exact difference of the two numbers.
\<close>

lemma aligned_mantissa:
  "e \<le> k \<Longrightarrow> real_of_int (m * 2 ^ nat (k - e)) * 2 powi e = real_of_int m * 2 powi k"
proof -
  assume "e \<le> k"
  then have "(2::real) powi (k - e) = 2 ^ nat (k - e)"
    by (simp add: power_int_def)
  then have "real_of_int (m * 2 ^ nat (k - e)) * 2 powi e =
      real_of_int m * (2 powi (k - e) * 2 powi e)"
    by simp
  also have "(2::real) powi (k - e) * 2 powi e = 2 powi k"
    by (simp add: power_int_add [symmetric])
  finally show ?thesis .
qed

lemma d_add_rounds_the_sum:
  "\<exists>m e. d_add a b = round_double m e \<and>
          real_of_int m * 2 powi e = real_of_double a + real_of_double b"
proof (cases a; cases b)
  fix m1 e1 m2 e2
  assume a: "a = Double m1 e1" and b: "b = Double m2 e2"
  define e where "e = min e1 e2"
  have "d_add a b = round_double (m1 * 2 ^ nat (e1 - e) + m2 * 2 ^ nat (e2 - e)) e"
    by (simp add: a b e_def Let_def)
  moreover have "real_of_int (m1 * 2 ^ nat (e1 - e) + m2 * 2 ^ nat (e2 - e)) * 2 powi e =
      real_of_double a + real_of_double b"
  proof -
    have "real_of_int (m1 * 2 ^ nat (e1 - e)) * 2 powi e = real_of_int m1 * 2 powi e1"
      by (rule aligned_mantissa) (simp add: e_def)
    moreover have "real_of_int (m2 * 2 ^ nat (e2 - e)) * 2 powi e = real_of_int m2 * 2 powi e2"
      by (rule aligned_mantissa) (simp add: e_def)
    moreover have "real_of_int (m1 * 2 ^ nat (e1 - e) + m2 * 2 ^ nat (e2 - e)) * 2 powi e =
        real_of_int (m1 * 2 ^ nat (e1 - e)) * 2 powi e +
        real_of_int (m2 * 2 ^ nat (e2 - e)) * 2 powi e"
      by (simp only: of_int_add distrib_right)
    ultimately show ?thesis by (simp only: a b real_of_double_Double)
  qed
  ultimately show ?thesis by blast
qed

lemma d_sub_rounds_the_difference:
  "\<exists>m e. d_sub a b = round_double m e \<and>
          real_of_int m * 2 powi e = real_of_double a - real_of_double b"
proof -
  have "real_of_double (d_neg b) = - real_of_double b"
    by (cases b) (simp add: real_of_double_Double)
  with d_add_rounds_the_sum [of a "d_neg b"] show ?thesis
    by (simp add: d_sub_def)
qed

section \<open>Properties of the containment search\<close>





text \<open>
  C6: with a merge of lanelets that is a union, a footprint within the accumulated polygon is
  found at once, by the first test, with the length untouched, whatever the current lanelet,
  the length and the margin are; it is found just so on every chain that extends the
  accumulated lanelet by further lanelets; and the loop over the following lanelets, entered
  from such a chain, succeeds at its first candidate on either branch. Extending the chain
  never loses a footprint that a shorter chain contains.
\<close>

theorem C6_contained_footprint_stays_contained:
  assumes union: "merge_is_union env fp"
    and inside: "boost_within env fp (polygon2d env comb)"
  shows "check_goal_footprint_inside_lanes (Suc n) env dp cur comb fp len m = Some (True, len) \<and>
         check_goal_footprint_inside_lanes (Suc n) env dp cur'
           (foldl (\<lambda>c nl. combine_lanelets_with_shoulder env [c, nl]) comb extension)
           fp len' m' = Some (True, len') \<and>
         (\<exists>len2. check_following (Suc n) env dp comb fp (next_lane # following) len m =
            Some (True, len2))"
proof (intro conjI)
  show "check_goal_footprint_inside_lanes (Suc n) env dp cur comb fp len m = Some (True, len)"
    using inside by simp
next
  have "boost_within env fp
      (polygon2d env (foldl (\<lambda>c nl. combine_lanelets_with_shoulder env [c, nl]) c extension))"
    if "boost_within env fp (polygon2d env c)" for c
    using that union by (induction extension arbitrary: c) (simp_all add: merge_is_union_def)
  from this [OF inside]
  show "check_goal_footprint_inside_lanes (Suc n) env dp cur'
      (foldl (\<lambda>c nl. combine_lanelets_with_shoulder env [c, nl]) comb extension)
      fp len' m' = Some (True, len')"
    by simp
next
  from union inside
  have "boost_within env fp
      (polygon2d env (combine_lanelets_with_shoulder env [comb, next_lane]))"
    by (simp add: merge_is_union_def)
  then show "\<exists>len2. check_following (Suc n) env dp comb fp (next_lane # following) len m =
      Some (True, len2)"
    by (simp add: Let_def)
qed

text \<open>
  On the example map the footprint \<open>[2]\<close> is within the lanelets \<open>[1, 2]\<close>: the search
  succeeds there and on the chain extended by the lanelets \<open>[3]\<close> and \<open>[1]\<close>, and the loop
  from \<open>[1, 2]\<close> succeeds by the recursive call (from the length 0) and by the test of the
  combined polygon (from the length 1).
\<close>

theorem C6_witness:
  "merge_is_union ring_world [2] \<and>
   boost_within ring_world [2] (polygon2d ring_world [1, 2]) \<and>
   check_goal_footprint_inside_lanes (Suc 0) ring_world ring_planner [2] [1, 2] [2]
     (Double 7 0) (Double 1 1) = Some (True, Double 7 0) \<and>
   check_goal_footprint_inside_lanes (Suc 0) ring_world ring_planner [1]
     (foldl (\<lambda>c nl. combine_lanelets_with_shoulder ring_world [c, nl]) [1, 2] [[3], [1]]) [2]
     (Double 9 0) (Double 1 1) = Some (True, Double 9 0) \<and>
   check_following (Suc 0) ring_world ring_planner [1, 2] [2] [[3]] (Double 0 0) (Double 1 1) =
     Some (True, Double 3 0) \<and>
   check_following (Suc 0) ring_world ring_planner [1, 2] [2] [[3]] (Double 1 0) (Double 1 1) =
     Some (True, Double 1 0)"
proof -
  have union: "merge_is_union ring_world [2]"
    by (simp add: merge_is_union_def)
  have inside: "boost_within ring_world [2] (polygon2d ring_world [1, 2])" by simp
  have deep: "check_following (Suc 0) ring_world ring_planner [1, 2] [2] [[3]]
      (Double 0 0) (Double 1 1) = Some (True, Double 3 0)"
    and flat: "check_following (Suc 0) ring_world ring_planner [1, 2] [2] [[3]]
      (Double 1 0) (Double 1 1) = Some (True, Double 1 0)"
    by (simp_all add: ring_eval)
  note t = C6_contained_footprint_stays_contained
    [OF union inside,
     where n = 0 and dp = ring_planner and cur = "[2]" and len = "Double 7 0"
       and m = "Double 1 1" and cur' = "[1]" and extension = "[[3], [1]]"
       and len' = "Double 9 0" and m' = "Double 1 1"]
  from t have "check_goal_footprint_inside_lanes (Suc 0) ring_world ring_planner [2] [1, 2] [2]
     (Double 7 0) (Double 1 1) = Some (True, Double 7 0)"
    by blast
  moreover from t
  have "check_goal_footprint_inside_lanes (Suc 0) ring_world ring_planner [1]
     (foldl (\<lambda>c nl. combine_lanelets_with_shoulder ring_world [c, nl]) [1, 2] [[3], [1]]) [2]
     (Double 9 0) (Double 1 1) = Some (True, Double 9 0)"
    by blast
  ultimately show ?thesis using union inside deep flat by blast
qed

text \<open>
  C2, as the code has it: for a candidate following lanelet, the search recurses one level
  deeper exactly when the accumulated length with the candidate's length added is not above
  the vehicle's maximum longitudinal offset plus the search margin, the two sums being those
  of double precision. Otherwise it subtracts the candidate's length again, tests whether the
  footprint is within the combined polygon, succeeds if it is and goes on with the next
  candidate if not. With no depth left for a call, a loop over one candidate returns nothing
  exactly in the first case.
\<close>

theorem C2_recursion_condition:
  "check_following n env dp comb fp (nl # fs) len m =
     (if real_of_double (d_add len (getLaneletLength2d env nl))
          \<le> real_of_double (d_add (max_longitudinal_offset_m (m_vehicle_info dp)) m)
      then (case check_goal_footprint_inside_lanes n env dp nl
                   (combine_lanelets_with_shoulder env [comb, nl]) fp
                   (d_add len (getLaneletLength2d env nl)) (search_margin_default dp) of
              None \<Rightarrow> None
            | Some (found, len2) \<Rightarrow>
                if found then Some (True, len2)
                else check_following n env dp comb fp fs
                       (d_sub len2 (getLaneletLength2d env nl)) m)
      else if boost_within env fp (polygon2d env (combine_lanelets_with_shoulder env [comb, nl]))
        then Some (True, d_sub (d_add len (getLaneletLength2d env nl)) (getLaneletLength2d env nl))
      else check_following n env dp comb fp fs
             (d_sub (d_add len (getLaneletLength2d env nl)) (getLaneletLength2d env nl)) m) \<and>
   (check_following 0 env dp comb fp [nl] len m = None \<longleftrightarrow>
      real_of_double (d_add len (getLaneletLength2d env nl))
        \<le> real_of_double (d_add (max_longitudinal_offset_m (m_vehicle_info dp)) m))"
  by (auto simp: Let_def d_less_iff not_less)

text \<open>
  The claim's own condition (the length plus the margin below the offset) does not hold at
  this candidate, and the footprint is not within the combined polygon, so by the claim the
  loop would test the containment and fail; the code makes a recursive call (with no depth
  for it the loop returns nothing) and the search succeeds two lanelets further. The numbers
  are 3, 2 and 1, and the sums are exact.
\<close>

theorem C2_counterexample:
  "\<not> d_less (d_add (d_add (Double 0 0) (getLaneletLength2d ring_world [2])) (Double 1 1))
       (max_longitudinal_offset_m (m_vehicle_info ring_planner)) \<and>
   real_of_double (d_add (d_add (Double 0 0) (getLaneletLength2d ring_world [2])) (Double 1 1)) = 5 \<and>
   real_of_double (max_longitudinal_offset_m (m_vehicle_info ring_planner)) = 1 \<and>
   \<not> boost_within ring_world [2, 3]
       (polygon2d ring_world (combine_lanelets_with_shoulder ring_world [[1], [2]])) \<and>
   check_following 0 ring_world ring_planner [1] [2, 3] [[2]] (Double 0 0) (Double 1 1) = None \<and>
   check_following (Suc (Suc 0)) ring_world ring_planner [1] [2, 3] [[2]] (Double 0 0) (Double 1 1) =
     Some (True, Double 3 0)"
  by (simp add: ring_eval real_of_double_def)

text \<open>
  On the example map, from a length of 0 the search recurses and succeeds, from a length of 1
  it tests the containment and fails. With an offset of 3.9, a margin of 2 and a lanelet 5.9
  long, the sum of 3.9 and 2 is the double 5.9, which is not below the length: the search
  recurses.
\<close>

theorem C2_witness:
  "check_following (Suc (Suc 0)) ring_world ring_planner [1] [2, 3] [[2]] (Double 0 0) (Double 1 1) =
     Some (True, Double 3 0) \<and>
   check_following (Suc (Suc 0)) ring_world ring_planner [1] [2, 3] [[2]] (Double 1 0) (Double 1 1) =
     Some (False, Double 1 0) \<and>
   d_add (max_longitudinal_offset_m (m_vehicle_info long_planner)) (Double 1 1) =
     getLaneletLength2d long_world [2] \<and>
   check_following 0 long_world long_planner [1] [2, 3] [[2]] (Double 0 0) (Double 1 1) = None \<and>
   check_following (Suc (Suc 0)) long_world long_planner [1] [2, 3] [[2]] (Double 0 0) (Double 1 1) =
     Some (True, Double 3321404725185741 (- 49))"
proof -
  have sum: "d_add (max_longitudinal_offset_m (m_vehicle_info long_planner)) (Double 1 1) =
     getLaneletLength2d long_world [2]"
    "d_add (Double 0 0) (getLaneletLength2d long_world [2]) = getLaneletLength2d long_world [2]"
    by (simp_all add: ring_eval)
  from C2_recursion_condition
    [where n = 0 and env = long_world and dp = long_planner and comb = "[1]"
       and fp = "[2, 3]" and nl = "[2]" and fs = "[]" and len = "Double 0 0" and m = "Double 1 1"]
  have "check_following 0 long_world long_planner [1] [2, 3] [[2]] (Double 0 0) (Double 1 1) = None"
    by (simp only: sum) simp
  then show ?thesis
    using C2_recursion_condition
          [where n = "Suc (Suc 0)" and env = ring_world and dp = ring_planner and comb = "[1]"
             and fp = "[2, 3]" and nl = "[2]" and fs = "[]" and len = "Double 0 0"
             and m = "Double 1 1"]
    by (simp add: ring_eval)
qed

section \<open>Properties of the goal validator\<close>

text \<open>
  C1: with the check of the footprint enabled, a closest road lanelet found and a containment
  search that has failed, the goal is rejected (``Goal's footprint exceeds lane!'') only if
  its point is in no parking lot; a goal whose point is in a parking lot is accepted, also
  when it is in no shoulder lanelet, not on the closest lanelet and in no parking space.
\<close>

theorem C1_parking_lot_carve_out:
  assumes "closest_road_lanelet env goal = Some closest_lanelet"
    and "check_footprint_inside_lanes (m_param dp)"
    and "check_goal_footprint_inside_lanes fuel env dp closest_lanelet
           (combine_lanelets_with_shoulder env path_lanelets)
           (footprint_polygon env (m_vehicle_info dp) goal) (Double 0 0)
           (search_margin_default dp) =
         Some (False, len)"
  shows "is_goal_valid fuel env dp goal path_lanelets =
           (if goal_in_shoulder_lanelet env dp goal \<or>
               is_in_parking_lot env (getAllParkingLots env) (position goal)
            then Some (True, [])
            else Some (False, [Goals_footprint_exceeds_lane]))"
  using assms by (simp add: is_goal_valid_def footprint_exceeds_lane_def Let_def)

theorem C1_witness:
  "closest_road_lanelet ring_world (pose_at (11 / 2)) = Some [3] \<and>
   check_footprint_inside_lanes (m_param ring_planner) \<and>
   check_goal_footprint_inside_lanes (Suc (Suc (Suc 0))) ring_world ring_planner [3]
     (combine_lanelets_with_shoulder ring_world [[1], [2], [3]])
     (footprint_polygon ring_world (m_vehicle_info ring_planner) (pose_at (11 / 2)))
     (Double 0 0) (search_margin_default ring_planner) = Some (False, Double 0 0) \<and>
   \<not> goal_in_shoulder_lanelet ring_world ring_planner (pose_at (11 / 2)) \<and>
   \<not> is_in_lane ring_world [3] (position (pose_at (11 / 2))) \<and>
   \<not> is_in_parking_space ring_world (getAllParkingSpaces ring_world)
       (position (pose_at (11 / 2))) \<and>
   is_in_parking_lot ring_world (getAllParkingLots ring_world) (position (pose_at (11 / 2))) \<and>
   is_goal_valid (Suc (Suc (Suc 0))) ring_world ring_planner (pose_at (11 / 2))
     [[1], [2], [3]] = Some (True, [])"
proof -
  have closest: "closest_road_lanelet ring_world (pose_at (11 / 2)) = Some [3]"
    by (simp add: ring_eval)
  have enabled: "check_footprint_inside_lanes (m_param ring_planner)"
    by (simp add: ring_eval)
  have fails: "check_goal_footprint_inside_lanes (Suc (Suc (Suc 0))) ring_world ring_planner [3]
     (combine_lanelets_with_shoulder ring_world [[1], [2], [3]])
     (footprint_polygon ring_world (m_vehicle_info ring_planner) (pose_at (11 / 2)))
     (Double 0 0) (search_margin_default ring_planner) = Some (False, Double 0 0)"
    by (simp add: ring_eval)
  have only_lot:
    "\<not> goal_in_shoulder_lanelet ring_world ring_planner (pose_at (11 / 2))"
    "\<not> is_in_lane ring_world [3] (position (pose_at (11 / 2)))"
    "\<not> is_in_parking_space ring_world (getAllParkingSpaces ring_world)
       (position (pose_at (11 / 2)))"
    "is_in_parking_lot ring_world (getAllParkingLots ring_world) (position (pose_at (11 / 2)))"
    by (simp_all add: ring_eval)
  from C1_parking_lot_carve_out [OF closest enabled fails] only_lot
  have "is_goal_valid (Suc (Suc (Suc 0))) ring_world ring_planner (pose_at (11 / 2))
     [[1], [2], [3]] = Some (True, [])"
    by simp
  with closest enabled fails only_lot show ?thesis by simp
qed

text \<open>
  C7: for a goal on the closest lanelet, the test of lines 357 to 366 holds exactly when the
  absolute value of the normalized difference between the lanelet's angle and the goal's yaw
  is strictly below the threshold in radians. When the goal is in no shoulder lanelet at that
  angle and its footprint is not rejected, a difference below the threshold makes the goal
  valid, and with a difference at or above it the goal is valid only by a parking space or a
  parking lot.
\<close>

theorem C7_angle_threshold_is_strict:
  assumes "is_in_lane env closest_lanelet (position goal)"
  shows "angle_diff_of env closest_lanelet goal =
           normalizeRadian env
             (getLaneletAngle env closest_lanelet (position goal) -
              getYaw env (orientation goal)) \<and>
         th_angle env dp = deg2rad env (goal_angle_threshold_deg (m_param dp)) \<and>
         (goal_on_lane env dp closest_lanelet goal \<longleftrightarrow>
            \<bar>angle_diff_of env closest_lanelet goal\<bar> < th_angle env dp) \<and>
         (\<not> goal_in_shoulder_lanelet env dp goal \<longrightarrow>
          closest_road_lanelet env goal = Some closest_lanelet \<longrightarrow>
          footprint_exceeds_lane fuel env dp goal path_lanelets closest_lanelet = Some False \<longrightarrow>
          is_goal_valid fuel env dp goal path_lanelets =
            Some (\<bar>angle_diff_of env closest_lanelet goal\<bar> < th_angle env dp \<or>
                  is_in_parking_space env (getAllParkingSpaces env) (position goal) \<or>
                  is_in_parking_lot env (getAllParkingLots env) (position goal), []))"
  using assms
  by (simp add: goal_on_lane_def angle_diff_of_def th_angle_def is_goal_valid_def Let_def)

text \<open>
  On the example map: a goal along the lane is accepted at a threshold of 10 degrees; a goal
  across the lane, a quarter turn off, is rejected at a threshold of 90 degrees, the
  difference being equal to the threshold.
\<close>

theorem C7_witness:
  "is_in_lane ring_world [2] (position (pose_at (5 / 2))) \<and>
   \<bar>angle_diff_of ring_world [2] (pose_at (5 / 2))\<bar> < th_angle ring_world ring_planner \<and>
   goal_on_lane ring_world ring_planner [2] (pose_at (5 / 2)) \<and>
   is_goal_valid (Suc (Suc (Suc 0))) ring_world ring_planner (pose_at (5 / 2)) [[1], [2]] =
     Some (True, []) \<and>
   is_in_lane ring_world [2] (position (pose_turned (5 / 2))) \<and>
   \<bar>angle_diff_of ring_world [2] (pose_turned (5 / 2))\<bar> = th_angle ring_world wide_planner \<and>
   \<not> goal_on_lane ring_world wide_planner [2] (pose_turned (5 / 2)) \<and>
   is_goal_valid (Suc (Suc (Suc 0))) ring_world wide_planner (pose_turned (5 / 2)) [[1], [2]] =
     Some (False, [])"
proof -
  have lane: "is_in_lane ring_world [2] (position (pose_at (5 / 2)))"
    "is_in_lane ring_world [2] (position (pose_turned (5 / 2)))"
    by (simp_all add: ring_eval)
  have pre: "\<not> goal_in_shoulder_lanelet ring_world ring_planner (pose_at (5 / 2))"
    "closest_road_lanelet ring_world (pose_at (5 / 2)) = Some [2]"
    "footprint_exceeds_lane (Suc (Suc (Suc 0))) ring_world ring_planner (pose_at (5 / 2))
       [[1], [2]] [2] = Some False"
    by (simp_all add: ring_eval)
  have pre': "\<not> goal_in_shoulder_lanelet ring_world wide_planner (pose_turned (5 / 2))"
    "closest_road_lanelet ring_world (pose_turned (5 / 2)) = Some [2]"
    "footprint_exceeds_lane (Suc (Suc (Suc 0))) ring_world wide_planner (pose_turned (5 / 2))
       [[1], [2]] [2] = Some False"
    by (simp_all add: ring_eval)
  have other: "\<not> is_in_parking_space ring_world (getAllParkingSpaces ring_world)
        (position (pose_turned (5 / 2)))"
    "\<not> is_in_parking_lot ring_world (getAllParkingLots ring_world)
        (position (pose_turned (5 / 2)))"
    by (simp_all add: ring_eval)
  have inside: "\<bar>angle_diff_of ring_world [2] (pose_at (5 / 2))\<bar> < th_angle ring_world ring_planner"
    by (simp add: ring_eval)
  have at_threshold:
    "\<bar>angle_diff_of ring_world [2] (pose_turned (5 / 2))\<bar> = th_angle ring_world wide_planner"
    by (simp add: ring_eval)
  note straight =
    C7_angle_threshold_is_strict
      [OF lane(1), where dp = ring_planner and fuel = "Suc (Suc (Suc 0))"
         and path_lanelets = "[[1], [2]]"]
  from straight have "goal_on_lane ring_world ring_planner [2] (pose_at (5 / 2)) \<longleftrightarrow>
      \<bar>angle_diff_of ring_world [2] (pose_at (5 / 2))\<bar> < th_angle ring_world ring_planner"
    by blast
  moreover from straight pre
  have "is_goal_valid (Suc (Suc (Suc 0))) ring_world ring_planner (pose_at (5 / 2)) [[1], [2]] =
      Some (\<bar>angle_diff_of ring_world [2] (pose_at (5 / 2))\<bar> < th_angle ring_world ring_planner \<or>
            is_in_parking_space ring_world (getAllParkingSpaces ring_world)
              (position (pose_at (5 / 2))) \<or>
            is_in_parking_lot ring_world (getAllParkingLots ring_world)
              (position (pose_at (5 / 2))), [])"
    by blast
  ultimately have accepted: "goal_on_lane ring_world ring_planner [2] (pose_at (5 / 2))"
    "is_goal_valid (Suc (Suc (Suc 0))) ring_world ring_planner (pose_at (5 / 2)) [[1], [2]] =
       Some (True, [])"
    using inside by simp_all
  note across =
    C7_angle_threshold_is_strict
      [OF lane(2), where dp = wide_planner and fuel = "Suc (Suc (Suc 0))"
         and path_lanelets = "[[1], [2]]"]
  from across have "goal_on_lane ring_world wide_planner [2] (pose_turned (5 / 2)) \<longleftrightarrow>
      \<bar>angle_diff_of ring_world [2] (pose_turned (5 / 2))\<bar> < th_angle ring_world wide_planner"
    by blast
  moreover from across pre'
  have "is_goal_valid (Suc (Suc (Suc 0))) ring_world wide_planner (pose_turned (5 / 2))
        [[1], [2]] =
      Some (\<bar>angle_diff_of ring_world [2] (pose_turned (5 / 2))\<bar> < th_angle ring_world wide_planner \<or>
            is_in_parking_space ring_world (getAllParkingSpaces ring_world)
              (position (pose_turned (5 / 2))) \<or>
            is_in_parking_lot ring_world (getAllParkingLots ring_world)
              (position (pose_turned (5 / 2))), [])"
    by blast
  ultimately have rejected: "\<not> goal_on_lane ring_world wide_planner [2] (pose_turned (5 / 2))"
    "is_goal_valid (Suc (Suc (Suc 0))) ring_world wide_planner (pose_turned (5 / 2)) [[1], [2]] =
       Some (False, [])"
    using at_threshold other by simp_all
  from lane inside at_threshold accepted rejected show ?thesis by simp
qed

section \<open>Properties of the route composer\<close>

lemma push_path_lanelets_distinct_adj:
  "distinct_adj (map (lanelet_id env) acc) \<Longrightarrow>
   distinct_adj (map (lanelet_id env) (push_path_lanelets env acc path))"
proof (induction path arbitrary: acc)
  case Nil
  then show ?case by simp
next
  case (Cons lane path)
  show ?case
  proof (cases "acc \<noteq> [] \<and> lanelet_id env lane = lanelet_id env (last acc)")
    case True
    then show ?thesis using Cons by simp
  next
    case False
    have "distinct_adj (map (lanelet_id env) (acc @ [lane]))"
    proof (cases "acc = []")
      case True
      then show ?thesis by simp
    next
      case nonempty: False
      with False have "lanelet_id env (last acc) \<noteq> lanelet_id env lane" by auto
      with nonempty Cons.prems show ?thesis
        by (simp add: distinct_adj_append_iff last_map)
    qed
    moreover have "push_path_lanelets env acc (lane # path) =
        push_path_lanelets env (acc @ [lane]) path"
      using False by auto
    ultimately show ?thesis using Cons.IH by simp
  qed
qed

lemma plan_route_lanelets_distinct_adj:
  "distinct_adj (map (lanelet_id env) acc) \<Longrightarrow>
   plan_route_lanelets env dp points acc = Some all_route_lanelets \<Longrightarrow>
   distinct_adj (map (lanelet_id env) all_route_lanelets)"
proof (induction env dp points acc rule: plan_route_lanelets.induct)
  case (1 env dp s g points acc)
  then show ?case
    by (auto split: option.splits intro: push_path_lanelets_distinct_adj)
qed simp_all

lemma push_path_lanelets_nonempty:
  "acc \<noteq> [] \<or> path \<noteq> [] \<Longrightarrow> push_path_lanelets env acc path \<noteq> []"
  by (induction path arbitrary: acc) auto

lemma plan_route_lanelets_keeps_nonempty:
  "plan_route_lanelets env dp points acc = Some all_route_lanelets \<Longrightarrow> acc \<noteq> [] \<Longrightarrow>
   all_route_lanelets \<noteq> []"
proof (induction env dp points acc rule: plan_route_lanelets.induct)
  case (1 env dp s g points acc)
  then show ?case
    by (auto split: option.splits simp: push_path_lanelets_nonempty)
qed simp_all

lemma plan_route_lanelets_fails:
  "Suc i < length points \<Longrightarrow>
   planPathLaneletsBetweenCheckpoints env (points ! i) (points ! Suc i)
     (consider_no_drivable_lanes (m_param dp)) = None \<Longrightarrow>
   plan_route_lanelets env dp points acc = None"
proof (induction env dp points acc arbitrary: i rule: plan_route_lanelets.induct)
  case (1 env dp s g points acc)
  show ?case
  proof (cases i)
    case 0
    with 1 show ?thesis by simp
  next
    case (Suc j)
    with 1 show ?thesis by (auto split: option.splits)
  qed
qed simp_all

lemma plan_route_lanelets_total:
  "(\<And>i. Suc i < length points \<Longrightarrow>
      planPathLaneletsBetweenCheckpoints env (points ! i) (points ! Suc i)
        (consider_no_drivable_lanes (m_param dp)) \<noteq> None) \<Longrightarrow>
   \<exists>all_route_lanelets. plan_route_lanelets env dp points acc = Some all_route_lanelets"
proof (induction env dp points acc rule: plan_route_lanelets.induct)
  case (1 env dp s g points acc)
  from "1.prems" [of 0] obtain path where
    first: "planPathLaneletsBetweenCheckpoints env s g
      (consider_no_drivable_lanes (m_param dp)) = Some path"
    by auto
  have "planPathLaneletsBetweenCheckpoints env ((g # points) ! i) ((g # points) ! Suc i)
        (consider_no_drivable_lanes (m_param dp)) \<noteq> None"
    if "Suc i < length (g # points)" for i
    using "1.prems" [of "Suc i"] that by simp
  with "1.IH" [OF first] first show ?case by simp
qed simp_all

lemma plan_cases:
  assumes "plan fuel env dp points = Some (Inr r)"
  shows "(plan_route_lanelets env dp points [] = None \<and>
            r = \<lparr>logged = [Failed_to_plan_route], returned = route_msg_default, planner = dp\<rparr>) \<or>
         (\<exists>all ws. plan_route_lanelets env dp points [] = Some all \<and> points \<noteq> [] \<and>
            planner r = setRouteLanelets dp all \<and>
            ((is_goal_valid fuel env (planner r) (plan_goal_pose env (planner r) points) all =
                Some (False, ws) \<and>
              logged r = ws @ [Goal_is_not_valid] \<and> returned r = route_msg_default) \<or>
             (is_goal_valid fuel env (planner r) (plan_goal_pose env (planner r) points) all =
                Some (True, ws) \<and>
              isRouteLooped env (createMapSegments env all all) \<and>
              logged r = ws @ [Loop_detected_within_route] \<and> returned r = route_msg_default) \<or>
             (is_goal_valid fuel env (planner r) (plan_goal_pose env (planner r) points) all =
                Some (True, ws) \<and>
              \<not> isRouteLooped env (createMapSegments env all all) \<and>
              logged r = ws \<and>
              start_pose (returned r) = hd points \<and>
              segments (returned r) = createMapSegments env all all \<and>
              refine_goal_height env (plan_goal_pose env (planner r) points)
                (createMapSegments env all all) = Inr (goal_pose (returned r)))))"
  using assms
  by (auto simp: plan_def Let_def setRouteLanelets_def
      split: option.splits if_splits sum.splits prod.splits)

lemma is_goal_valid_True_log:
  "is_goal_valid fuel env dp goal path = Some (True, ws) \<Longrightarrow> ws = []"
  by (auto simp: is_goal_valid_def Let_def split: option.splits if_splits)

text \<open>
  C8: whatever the path search returns for the pairs of check points, the lanelets \<^verbatim>\<open>plan\<close>
  collects have no two neighbours with the same id: a lanelet whose id is that of the last
  lanelet collected is skipped, so the lanelet shared by the end of one path and the start
  of the next is kept once.
\<close>

theorem C8_no_consecutive_duplicate_ids:
  "distinct_adj (map (lanelet_id env) (foldl (push_path_lanelets env) [] paths)) \<and>
   (plan_route_lanelets env dp points [] = Some all_route_lanelets \<longrightarrow>
      distinct_adj (map (lanelet_id env) all_route_lanelets)) \<and>
   (acc \<noteq> [] \<longrightarrow> lanelet_id env lane = lanelet_id env (last acc) \<longrightarrow>
      push_path_lanelets env acc (lane # path) = push_path_lanelets env acc path)"
proof (intro conjI impI)
  have "distinct_adj (map (lanelet_id env) (foldl (push_path_lanelets env) start paths))"
    if "distinct_adj (map (lanelet_id env) start)" for start
    using that
    by (induction paths arbitrary: start) (simp_all add: push_path_lanelets_distinct_adj)
  then show "distinct_adj (map (lanelet_id env) (foldl (push_path_lanelets env) [] paths))"
    by simp
next
  assume "plan_route_lanelets env dp points [] = Some all_route_lanelets"
  then show "distinct_adj (map (lanelet_id env) all_route_lanelets)"
    using plan_route_lanelets_distinct_adj [of env "[]"] by simp
next
  assume "acc \<noteq> []" "lanelet_id env lane = lanelet_id env (last acc)"
  then show "push_path_lanelets env acc (lane # path) = push_path_lanelets env acc path"
    by simp
qed

theorem C8_witness:
  "planPathLaneletsBetweenCheckpoints ring_world (pose_at (3 / 2)) (pose_at (5 / 2)) False =
     Some [[1], [2]] \<and>
   planPathLaneletsBetweenCheckpoints ring_world (pose_at (5 / 2)) (pose_at (7 / 2)) False =
     Some [[2], [3]] \<and>
   plan_route_lanelets ring_world ring_planner
     [pose_at (3 / 2), pose_at (5 / 2), pose_at (7 / 2)] [] = Some [[1], [2], [3]] \<and>
   foldl (push_path_lanelets ring_world) [] [[[1], [2]], [[2], [3]]] = [[1], [2], [3]] \<and>
   distinct_adj (map (lanelet_id ring_world) [[1], [2], [3]]) \<and>
   push_path_lanelets ring_world [[1], [2]] [[2], [3]] = push_path_lanelets ring_world [[1], [2]] [[3]]"
proof -
  have paths:
    "planPathLaneletsBetweenCheckpoints ring_world (pose_at (3 / 2)) (pose_at (5 / 2)) False =
       Some [[1], [2]]"
    "planPathLaneletsBetweenCheckpoints ring_world (pose_at (5 / 2)) (pose_at (7 / 2)) False =
       Some [[2], [3]]"
    by (simp_all add: ring_eval)
  have run: "plan_route_lanelets ring_world ring_planner
     [pose_at (3 / 2), pose_at (5 / 2), pose_at (7 / 2)] [] = Some [[1], [2], [3]]"
    by (simp add: ring_eval)
  have folded: "foldl (push_path_lanelets ring_world) [] [[[1], [2]], [[2], [3]]] = [[1], [2], [3]]"
    by (simp add: ring_eval)
  have same: "lanelet_id ring_world [2] = lanelet_id ring_world (last [[1], [2]])"
    by (simp add: ring_eval)
  note t = C8_no_consecutive_duplicate_ids
    [where env = ring_world and dp = ring_planner
       and points = "[pose_at (3 / 2), pose_at (5 / 2), pose_at (7 / 2)]"
       and all_route_lanelets = "[[1], [2], [3]]" and acc = "[[1], [2]]" and lane = "[2]"
       and path = "[[3]]" and paths = "[[[1], [2]], [[2], [3]]]"]
  from t run have "distinct_adj (map (lanelet_id ring_world) [[1], [2], [3]])" by blast
  moreover from t same have "push_path_lanelets ring_world [[1], [2]] [[2], [3]] =
      push_path_lanelets ring_world [[1], [2]] [[3]]"
    by blast
  ultimately show ?thesis using paths run folded by simp
qed

text \<open>
  C4: when the path search fails for a pair of consecutive check points, \<^verbatim>\<open>plan\<close> returns
  at once (whatever depth the goal validation would need) with the route message as it was
  constructed: no segment of the pairs already planned is in it, and the handler's route
  lanelets are not set. When the goal is not valid, or the route is looped, the route
  returned is that empty message too.
\<close>

theorem C4_failure_returns_no_partial_route:
  "(Suc i < length points \<longrightarrow>
    planPathLaneletsBetweenCheckpoints env (points ! i) (points ! Suc i)
      (consider_no_drivable_lanes (m_param dp)) = None \<longrightarrow>
    plan fuel env dp points =
      Some (Inr \<lparr>logged = [Failed_to_plan_route], returned = route_msg_default, planner = dp\<rparr>)) \<and>
   (plan_route_lanelets env dp points [] = Some all_route_lanelets \<longrightarrow> points \<noteq> [] \<longrightarrow>
    is_goal_valid fuel env (setRouteLanelets dp all_route_lanelets)
      (plan_goal_pose env (setRouteLanelets dp all_route_lanelets) points) all_route_lanelets =
      Some (False, ws) \<longrightarrow>
    plan fuel env dp points =
      Some (Inr \<lparr>logged = ws @ [Goal_is_not_valid], returned = route_msg_default,
                 planner = setRouteLanelets dp all_route_lanelets\<rparr>)) \<and>
   (plan_route_lanelets env dp points [] = Some all_route_lanelets \<longrightarrow> points \<noteq> [] \<longrightarrow>
    is_goal_valid fuel env (setRouteLanelets dp all_route_lanelets)
      (plan_goal_pose env (setRouteLanelets dp all_route_lanelets) points) all_route_lanelets =
      Some (True, ws) \<longrightarrow>
    isRouteLooped env (createMapSegments env all_route_lanelets all_route_lanelets) \<longrightarrow>
    plan fuel env dp points =
      Some (Inr \<lparr>logged = ws @ [Loop_detected_within_route], returned = route_msg_default,
                 planner = setRouteLanelets dp all_route_lanelets\<rparr>)) \<and>
   segments route_msg_default = []"
proof (intro conjI impI)
  assume "Suc i < length points"
    and "planPathLaneletsBetweenCheckpoints env (points ! i) (points ! Suc i)
      (consider_no_drivable_lanes (m_param dp)) = None"
  then have "plan_route_lanelets env dp points [] = None"
    by (rule plan_route_lanelets_fails)
  then show "plan fuel env dp points =
      Some (Inr \<lparr>logged = [Failed_to_plan_route], returned = route_msg_default, planner = dp\<rparr>)"
    by (simp add: plan_def)
next
  assume "plan_route_lanelets env dp points [] = Some all_route_lanelets" "points \<noteq> []"
    "is_goal_valid fuel env (setRouteLanelets dp all_route_lanelets)
      (plan_goal_pose env (setRouteLanelets dp all_route_lanelets) points) all_route_lanelets =
      Some (False, ws)"
  then show "plan fuel env dp points =
      Some (Inr \<lparr>logged = ws @ [Goal_is_not_valid], returned = route_msg_default,
                 planner = setRouteLanelets dp all_route_lanelets\<rparr>)"
    by (simp add: plan_def Let_def)
next
  assume "plan_route_lanelets env dp points [] = Some all_route_lanelets" "points \<noteq> []"
    "is_goal_valid fuel env (setRouteLanelets dp all_route_lanelets)
      (plan_goal_pose env (setRouteLanelets dp all_route_lanelets) points) all_route_lanelets =
      Some (True, ws)"
    "isRouteLooped env (createMapSegments env all_route_lanelets all_route_lanelets)"
  then show "plan fuel env dp points =
      Some (Inr \<lparr>logged = ws @ [Loop_detected_within_route], returned = route_msg_default,
                 planner = setRouteLanelets dp all_route_lanelets\<rparr>)"
    by (simp add: plan_def Let_def setRouteLanelets_def)
next
  show "segments route_msg_default = []" by (simp add: route_msg_default_def)
qed

text \<open>
  On the example map: the second pair of three check points has no path, and nothing of the
  first pair's path is returned, even with no depth for the validation; a goal across the
  lane is not valid; and a route once around the ring and on is looped.
\<close>

theorem C4_witness:
  "planPathLaneletsBetweenCheckpoints ring_world (pose_at (3 / 2)) (pose_at (5 / 2)) False =
     Some [[1], [2]] \<and>
   planPathLaneletsBetweenCheckpoints ring_world (pose_at (5 / 2)) (pose_at (15 / 2)) False =
     None \<and>
   plan 0 ring_world ring_planner [pose_at (3 / 2), pose_at (5 / 2), pose_at (15 / 2)] =
     Some (Inr \<lparr>logged = [Failed_to_plan_route], returned = route_msg_default,
                planner = ring_planner\<rparr>) \<and>
   plan (Suc (Suc (Suc 0))) ring_world ring_planner [pose_at (3 / 2), pose_turned (5 / 2)] =
     Some (Inr \<lparr>logged = [Goal_is_not_valid], returned = route_msg_default,
                planner = setRouteLanelets ring_planner [[1], [2]]\<rparr>) \<and>
   plan (Suc (Suc (Suc 0))) ring_world ring_planner
       [pose_at (3 / 2), pose_at (7 / 2), pose_at (5 / 2)] =
     Some (Inr \<lparr>logged = [Loop_detected_within_route], returned = route_msg_default,
                planner = setRouteLanelets ring_planner [[1], [2], [3], [1], [2]]\<rparr>) \<and>
   segments route_msg_default = []"
proof -
  let ?no_path = "[pose_at (3 / 2), pose_at (5 / 2), pose_at (15 / 2)]"
  let ?across = "[pose_at (3 / 2), pose_turned (5 / 2)]"
  let ?around = "[pose_at (3 / 2), pose_at (7 / 2), pose_at (5 / 2)]"
  let ?fuel = "Suc (Suc (Suc 0))"
  have first: "planPathLaneletsBetweenCheckpoints ring_world (pose_at (3 / 2)) (pose_at (5 / 2))
      False = Some [[1], [2]]"
    by (simp add: ring_eval)
  have second: "planPathLaneletsBetweenCheckpoints ring_world (?no_path ! 1) (?no_path ! Suc 1)
      (consider_no_drivable_lanes (m_param ring_planner)) = None"
    by (simp add: ring_eval)
  have across: "plan_route_lanelets ring_world ring_planner ?across [] = Some [[1], [2]]"
    "is_goal_valid ?fuel ring_world (setRouteLanelets ring_planner [[1], [2]])
       (plan_goal_pose ring_world (setRouteLanelets ring_planner [[1], [2]]) ?across)
       [[1], [2]] = Some (False, [])"
    by (simp_all add: ring_eval)
  have around: "plan_route_lanelets ring_world ring_planner ?around [] =
      Some [[1], [2], [3], [1], [2]]"
    "is_goal_valid ?fuel ring_world (setRouteLanelets ring_planner [[1], [2], [3], [1], [2]])
       (plan_goal_pose ring_world (setRouteLanelets ring_planner [[1], [2], [3], [1], [2]])
          ?around)
       [[1], [2], [3], [1], [2]] = Some (True, [])"
    "isRouteLooped ring_world
       (createMapSegments ring_world [[1], [2], [3], [1], [2]] [[1], [2], [3], [1], [2]])"
    by (simp_all add: ring_eval)
  have "plan 0 ring_world ring_planner ?no_path =
     Some (Inr \<lparr>logged = [Failed_to_plan_route], returned = route_msg_default,
                planner = ring_planner\<rparr>)"
    using C4_failure_returns_no_partial_route
            [where i = 1 and points = ?no_path and env = ring_world and dp = ring_planner
               and fuel = 0]
          second
    by simp
  moreover have "plan ?fuel ring_world ring_planner ?across =
     Some (Inr \<lparr>logged = [Goal_is_not_valid], returned = route_msg_default,
                planner = setRouteLanelets ring_planner [[1], [2]]\<rparr>)"
    using C4_failure_returns_no_partial_route
            [where points = ?across and env = ring_world and dp = ring_planner
               and fuel = ?fuel and all_route_lanelets = "[[1], [2]]" and ws = "[]"]
          across
    by simp
  moreover have "plan ?fuel ring_world ring_planner ?around =
     Some (Inr \<lparr>logged = [Loop_detected_within_route], returned = route_msg_default,
                planner = setRouteLanelets ring_planner [[1], [2], [3], [1], [2]]\<rparr>)"
    using C4_failure_returns_no_partial_route
            [where points = ?around and env = ring_world and dp = ring_planner
               and fuel = ?fuel and all_route_lanelets = "[[1], [2], [3], [1], [2]]"
               and ws = "[]"]
          around
    by simp
  moreover have "planPathLaneletsBetweenCheckpoints ring_world (pose_at (5 / 2))
      (pose_at (15 / 2)) False = None"
    using second by simp
  ultimately show ?thesis using first by (simp add: route_msg_default_def)
qed

text \<open>
  C3, as the code has it: a call of \<^verbatim>\<open>plan\<close> that returns has either logged a warning
  whose last line is one of ``Failed to plan route.'', ``Goal is not valid!'' and ``Loop
  detected within route!'' and returned the route message as it was constructed, the same
  for the three; or logged nothing and returned the route of all the pairs' lanelets, not
  looped, from the first check point to the goal pose that was found valid, at its refined
  height. The kind of the failure is in the log only.
\<close>

theorem C3_plan_returns_route_or_empty_route:
  assumes "plan fuel env dp points = Some (Inr r)"
  shows "(returned r = route_msg_default \<and> logged r \<noteq> [] \<and>
          last (logged r) \<in> {Failed_to_plan_route, Goal_is_not_valid, Loop_detected_within_route}) \<or>
         (logged r = [] \<and> points \<noteq> [] \<and>
          (\<exists>all_route_lanelets.
             plan_route_lanelets env dp points [] = Some all_route_lanelets \<and>
             planner r = setRouteLanelets dp all_route_lanelets \<and>
             is_goal_valid fuel env (planner r) (plan_goal_pose env (planner r) points)
               all_route_lanelets = Some (True, []) \<and>
             segments (returned r) = createMapSegments env all_route_lanelets all_route_lanelets \<and>
             \<not> isRouteLooped env (segments (returned r)) \<and>
             start_pose (returned r) = hd points \<and>
             refine_goal_height env (plan_goal_pose env (planner r) points)
               (segments (returned r)) = Inr (goal_pose (returned r))))"
proof -
  from plan_cases [OF assms] consider
    (no_path) "r = \<lparr>logged = [Failed_to_plan_route], returned = route_msg_default, planner = dp\<rparr>"
  | (invalid) ws where "logged r = ws @ [Goal_is_not_valid]" "returned r = route_msg_default"
  | (looped) ws where "logged r = ws @ [Loop_detected_within_route]"
      "returned r = route_msg_default"
  | (route) all_route_lanelets ws where
      "plan_route_lanelets env dp points [] = Some all_route_lanelets" "points \<noteq> []"
      "planner r = setRouteLanelets dp all_route_lanelets"
      "is_goal_valid fuel env (planner r) (plan_goal_pose env (planner r) points)
         all_route_lanelets = Some (True, ws)"
      "\<not> isRouteLooped env (createMapSegments env all_route_lanelets all_route_lanelets)"
      "logged r = ws" "start_pose (returned r) = hd points"
      "segments (returned r) = createMapSegments env all_route_lanelets all_route_lanelets"
      "refine_goal_height env (plan_goal_pose env (planner r) points)
         (createMapSegments env all_route_lanelets all_route_lanelets) =
       Inr (goal_pose (returned r))"
    by blast
  then show ?thesis
  proof cases
    case no_path
    then show ?thesis by simp
  next
    case invalid
    then show ?thesis by simp
  next
    case looped
    then show ?thesis by simp
  next
    case route
    from route(4) have "ws = []" by (rule is_goal_valid_True_log)
    with route show ?thesis by auto
  qed
qed

text \<open>
  Three calls on the example map, one for each kind of failure: the warnings differ, the
  routes returned are the same value.
\<close>

theorem C3_counterexample:
  "map_option (map_sum id logged)
     (plan (Suc (Suc (Suc 0))) ring_world ring_planner [pose_at (3 / 2), pose_at (15 / 2)]) =
     Some (Inr [Failed_to_plan_route]) \<and>
   map_option (map_sum id logged)
     (plan (Suc (Suc (Suc 0))) ring_world ring_planner [pose_at (3 / 2), pose_turned (5 / 2)]) =
     Some (Inr [Goal_is_not_valid]) \<and>
   map_option (map_sum id logged)
     (plan (Suc (Suc (Suc 0))) ring_world ring_planner
        [pose_at (3 / 2), pose_at (7 / 2), pose_at (5 / 2)]) =
     Some (Inr [Loop_detected_within_route]) \<and>
   map_option (map_sum id returned)
     (plan (Suc (Suc (Suc 0))) ring_world ring_planner [pose_at (3 / 2), pose_at (15 / 2)]) =
     Some (Inr route_msg_default) \<and>
   map_option (map_sum id returned)
     (plan (Suc (Suc (Suc 0))) ring_world ring_planner [pose_at (3 / 2), pose_turned (5 / 2)]) =
     Some (Inr route_msg_default) \<and>
   map_option (map_sum id returned)
     (plan (Suc (Suc (Suc 0))) ring_world ring_planner
        [pose_at (3 / 2), pose_at (7 / 2), pose_at (5 / 2)]) =
     Some (Inr route_msg_default)"
  by (simp add: ring_eval)

theorem C3_witness:
  "\<exists>r. plan (Suc (Suc (Suc 0))) ring_world ring_planner [pose_at (3 / 2), pose_at (5 / 2)] =
         Some (Inr r) \<and>
       logged r = [] \<and>
       start_pose (returned r) = pose_at (3 / 2) \<and>
       position (goal_pose (returned r)) = \<lparr>px = 5 / 2, py = 1 / 2, pz = 1 / 4\<rparr> \<and>
       segments (returned r) = [ring_segment [1], ring_segment [2]] \<and>
       \<not> isRouteLooped ring_world (segments (returned r)) \<and>
       returned r \<noteq> route_msg_default"
proof -
  obtain r where run:
    "plan (Suc (Suc (Suc 0))) ring_world ring_planner [pose_at (3 / 2), pose_at (5 / 2)] =
       Some (Inr r)"
    and r: "logged r = []" "start_pose (returned r) = pose_at (3 / 2)"
      "position (goal_pose (returned r)) = \<lparr>px = 5 / 2, py = 1 / 2, pz = 1 / 4\<rparr>"
      "segments (returned r) = [ring_segment [1], ring_segment [2]]"
    by (simp add: ring_eval)
  from r(4) have differs: "returned r \<noteq> route_msg_default"
    by (auto simp: route_msg_default_def)
  from C3_plan_returns_route_or_empty_route [OF run] r(1)
  have "\<not> isRouteLooped ring_world (segments (returned r))" by auto
  with run r differs show ?thesis by blast
qed

section \<open>Properties of the refinement of the goal's height\<close>

text \<open>
  C9, as the code has it: \<^verbatim>\<open>refine_goal_height\<close> returns unchanged a goal whose height
  is already the height of its projection on the centerline of the last preferred lanelet of
  the route; and applying it to its own result changes nothing when the height of the
  projection does not depend on the height of the point projected, as on a level centerline
  or with a projection taken straight down.
\<close>

theorem C9_refine_goal_height_idempotent:
  "(route_sections \<noteq> [] \<longrightarrow>
    pz (position goal) =
      project_goal_to_map env
        (getLaneletsFromId env (prim_id (preferred_primitive (last route_sections))))
        (position goal) \<longrightarrow>
    refine_goal_height env goal route_sections = Inr goal) \<and>
   ((\<forall>point height.
       project_goal_to_map env
         (getLaneletsFromId env (prim_id (preferred_primitive (last route_sections))))
         (point\<lparr>pz := height\<rparr>) =
       project_goal_to_map env
         (getLaneletsFromId env (prim_id (preferred_primitive (last route_sections)))) point) \<longrightarrow>
    refine_goal_height env goal route_sections = Inr refined \<longrightarrow>
    refine_goal_height env refined route_sections = Inr refined)"
proof (intro conjI impI)
  let ?h = "project_goal_to_map env
      (getLaneletsFromId env (prim_id (preferred_primitive (last route_sections))))"
  assume sections: "route_sections \<noteq> []" and fixed: "pz (position goal) = ?h (position goal)"
  have "refine_goal_height env goal route_sections =
      Inr (goal\<lparr>position := (position goal)\<lparr>pz := ?h (position goal)\<rparr>\<rparr>)"
    using sections by (simp add: refine_goal_height_def Let_def)
  also have "goal\<lparr>position := (position goal)\<lparr>pz := ?h (position goal)\<rparr>\<rparr> = goal"
    unfolding fixed [symmetric] by simp
  finally show "refine_goal_height env goal route_sections = Inr goal" .
next
  let ?h = "project_goal_to_map env
      (getLaneletsFromId env (prim_id (preferred_primitive (last route_sections))))"
  assume level: "\<forall>point height. ?h (point\<lparr>pz := height\<rparr>) = ?h point"
    and once: "refine_goal_height env goal route_sections = Inr refined"
  from once have sections: "route_sections \<noteq> []"
    and refined: "refined = goal\<lparr>position := (position goal)\<lparr>pz := ?h (position goal)\<rparr>\<rparr>"
    by (auto simp: refine_goal_height_def Let_def split: if_splits)
  from level have "?h ((position goal)\<lparr>pz := ?h (position goal)\<rparr>) = ?h (position goal)"
    by blast
  with sections refined show "refine_goal_height env refined route_sections = Inr refined"
    by (simp add: refine_goal_height_def Let_def)
qed

text \<open>
  On the map whose centerline climbs along \<open>z = x\<close>, with the projection in space: a goal
  at \<open>x = 1\<close> and height 0 is refined to the height 1/2, and refined again to the height
  3/4. The second application is not the identity on the result of the first.
\<close>

theorem C9_counterexample:
  "refine_goal_height sloped_world (pose_at 1) [ring_segment [1]] =
     Inr (pose_at 1\<lparr>position := \<lparr>px = 1, py = 1 / 2, pz = 1 / 2\<rparr>\<rparr>) \<and>
   refine_goal_height sloped_world (pose_at 1\<lparr>position := \<lparr>px = 1, py = 1 / 2, pz = 1 / 2\<rparr>\<rparr>)
     [ring_segment [1]] =
     Inr (pose_at 1\<lparr>position := \<lparr>px = 1, py = 1 / 2, pz = 3 / 4\<rparr>\<rparr>) \<and>
   pose_at 1\<lparr>position := \<lparr>px = 1, py = 1 / 2, pz = 3 / 4\<rparr>\<rparr> \<noteq>
     pose_at 1\<lparr>position := \<lparr>px = 1, py = 1 / 2, pz = 1 / 2\<rparr>\<rparr>"
  by (simp add: refine_goal_height_def project_goal_to_map_def sloped_world_def
      project_on_slope_def pose_at_def Let_def)

text \<open>
  On the example map, where the projection is taken straight down: the goal at \<open>x = 5/2\<close>
  is refined to the height 1/4, and refining the result returns it unchanged.
\<close>

theorem C9_witness:
  "[ring_segment [1], ring_segment [2]] \<noteq> [] \<and>
   (\<forall>point height.
      project_goal_to_map ring_world
        (getLaneletsFromId ring_world
           (prim_id (preferred_primitive (last [ring_segment [1], ring_segment [2]]))))
        (point\<lparr>pz := height\<rparr>) =
      project_goal_to_map ring_world
        (getLaneletsFromId ring_world
           (prim_id (preferred_primitive (last [ring_segment [1], ring_segment [2]])))) point) \<and>
   refine_goal_height ring_world (pose_at (5 / 2)) [ring_segment [1], ring_segment [2]] =
     Inr (pose_at (5 / 2)\<lparr>position := \<lparr>px = 5 / 2, py = 1 / 2, pz = 1 / 4\<rparr>\<rparr>) \<and>
   pz (position (pose_at (5 / 2)\<lparr>position := \<lparr>px = 5 / 2, py = 1 / 2, pz = 1 / 4\<rparr>\<rparr>)) =
     project_goal_to_map ring_world
       (getLaneletsFromId ring_world
          (prim_id (preferred_primitive (last [ring_segment [1], ring_segment [2]]))))
       (position (pose_at (5 / 2)\<lparr>position := \<lparr>px = 5 / 2, py = 1 / 2, pz = 1 / 4\<rparr>\<rparr>)) \<and>
   refine_goal_height ring_world
     (pose_at (5 / 2)\<lparr>position := \<lparr>px = 5 / 2, py = 1 / 2, pz = 1 / 4\<rparr>\<rparr>)
     [ring_segment [1], ring_segment [2]] =
     Inr (pose_at (5 / 2)\<lparr>position := \<lparr>px = 5 / 2, py = 1 / 2, pz = 1 / 4\<rparr>\<rparr>)"
proof -
  let ?g = "pose_at (5 / 2)\<lparr>position := \<lparr>px = 5 / 2, py = 1 / 2, pz = 1 / 4\<rparr>\<rparr>"
  let ?rs = "[ring_segment [1], ring_segment [2]]"
  let ?h = "project_goal_to_map ring_world
      (getLaneletsFromId ring_world (prim_id (preferred_primitive (last ?rs))))"
  have nonempty: "?rs \<noteq> []" by simp
  have level: "\<forall>point height. ?h (point\<lparr>pz := height\<rparr>) = ?h point"
    by (simp add: project_goal_to_map_def on_centerline_def)
  have at_height: "pz (position ?g) = ?h (position ?g)"
    by (simp add: project_goal_to_map_def on_centerline_def)
  have once: "refine_goal_height ring_world (pose_at (5 / 2)) ?rs = Inr ?g"
    by (simp add: refine_goal_height_def project_goal_to_map_def on_centerline_def Let_def)
  note t = C9_refine_goal_height_idempotent
    [where env = ring_world and route_sections = ?rs and refined = ?g]
  from t [where goal = "pose_at (5 / 2)"] level once
  have twice: "refine_goal_height ring_world ?g ?rs = Inr ?g" by blast
  from t [where goal = ?g] nonempty at_height
  have "refine_goal_height ring_world ?g ?rs = Inr ?g" by blast
  with nonempty level at_height once show ?thesis by blast
qed

text \<open>
  C10: \<^verbatim>\<open>refine_goal_height\<close> runs into \<^verbatim>\<open>back()\<close> of an empty vector exactly when
  there is no route section. With one section for each route lanelet, \<^verbatim>\<open>plan\<close> reaches
  it with a section when there are two check points or more and every pair yields a path
  that is not empty; it reaches it with a section only when there are two check points or
  more and every pair yields a path. With one check point whose goal is found valid, the
  call of \<^verbatim>\<open>plan\<close> ends in that read out of bounds.
\<close>

theorem C10_refine_goal_height_needs_a_section:
  assumes "\<And>ls. length (createMapSegments env ls ls) = length ls"
  shows "(refine_goal_height env goal route_sections = Inl Back_of_empty_vector \<longleftrightarrow>
            route_sections = []) \<and>
         (is_goal_valid fuel env (setRouteLanelets dp [])
            (plan_goal_pose env (setRouteLanelets dp []) [p]) [] = Some (True, ws) \<longrightarrow>
          \<not> isRouteLooped env [] \<longrightarrow>
          plan fuel env dp [p] = Some (Inl Back_of_empty_vector)) \<and>
         (2 \<le> length points \<longrightarrow>
          (\<forall>i. Suc i < length points \<longrightarrow>
             (\<exists>path. planPathLaneletsBetweenCheckpoints env (points ! i) (points ! Suc i)
                       (consider_no_drivable_lanes (m_param dp)) = Some path \<and> path \<noteq> [])) \<longrightarrow>
          (\<exists>all_route_lanelets.
             plan_route_lanelets env dp points [] = Some all_route_lanelets \<and>
             createMapSegments env all_route_lanelets all_route_lanelets \<noteq> [])) \<and>
         (plan_route_lanelets env dp points [] = Some found \<longrightarrow>
          createMapSegments env found found \<noteq> [] \<longrightarrow>
          2 \<le> length points \<and>
          (\<forall>i. Suc i < length points \<longrightarrow>
             planPathLaneletsBetweenCheckpoints env (points ! i) (points ! Suc i)
               (consider_no_drivable_lanes (m_param dp)) \<noteq> None))"
proof (intro conjI impI)
  show "refine_goal_height env goal route_sections = Inl Back_of_empty_vector \<longleftrightarrow>
      route_sections = []"
    by (simp add: refine_goal_height_def Let_def)
next
  have empty: "createMapSegments env [] [] = []"
    using assms [of "[]"] by simp
  assume "is_goal_valid fuel env (setRouteLanelets dp [])
            (plan_goal_pose env (setRouteLanelets dp []) [p]) [] = Some (True, ws)"
    and "\<not> isRouteLooped env []"
  with empty show "plan fuel env dp [p] = Some (Inl Back_of_empty_vector)"
    by (simp add: plan_def Let_def setRouteLanelets_def refine_goal_height_def)
next
  assume two: "2 \<le> length points"
    and paths: "\<forall>i. Suc i < length points \<longrightarrow>
             (\<exists>path. planPathLaneletsBetweenCheckpoints env (points ! i) (points ! Suc i)
                       (consider_no_drivable_lanes (m_param dp)) = Some path \<and> path \<noteq> [])"
  from two obtain s g rest where points: "points = s # g # rest"
    by (cases points; cases "tl points") auto
  from paths points obtain path where
    first: "planPathLaneletsBetweenCheckpoints env s g
      (consider_no_drivable_lanes (m_param dp)) = Some path" and "path \<noteq> []"
    by fastforce
  then have start: "push_path_lanelets env [] path \<noteq> []"
    by (simp add: push_path_lanelets_nonempty)
  have "planPathLaneletsBetweenCheckpoints env ((g # rest) ! i) ((g # rest) ! Suc i)
        (consider_no_drivable_lanes (m_param dp)) \<noteq> None"
    if "Suc i < length (g # rest)" for i
    using paths [rule_format, of "Suc i"] that points by auto
  then obtain all_route_lanelets where
    rest: "plan_route_lanelets env dp (g # rest) (push_path_lanelets env [] path) =
      Some all_route_lanelets"
    using plan_route_lanelets_total [of "g # rest" env dp "push_path_lanelets env [] path"]
    by blast
  then have "all_route_lanelets \<noteq> []"
    using start by (rule plan_route_lanelets_keeps_nonempty)
  then have "createMapSegments env all_route_lanelets all_route_lanelets \<noteq> []"
    using assms [of all_route_lanelets] by auto
  moreover have "plan_route_lanelets env dp points [] = Some all_route_lanelets"
    using points first rest by simp
  ultimately show "\<exists>all_route_lanelets.
      plan_route_lanelets env dp points [] = Some all_route_lanelets \<and>
      createMapSegments env all_route_lanelets all_route_lanelets \<noteq> []"
    by blast
next
  assume run: "plan_route_lanelets env dp points [] = Some found"
    and sections: "createMapSegments env found found \<noteq> []"
  from sections have "found \<noteq> []"
    using assms [of found] by auto
  with run show "2 \<le> length points"
    by (cases points; cases "tl points") auto
next
  assume run: "plan_route_lanelets env dp points [] = Some found"
  show "\<forall>i. Suc i < length points \<longrightarrow>
      planPathLaneletsBetweenCheckpoints env (points ! i) (points ! Suc i)
        (consider_no_drivable_lanes (m_param dp)) \<noteq> None"
  proof (intro allI impI)
    fix i
    assume "Suc i < length points"
    then show "planPathLaneletsBetweenCheckpoints env (points ! i) (points ! Suc i)
        (consider_no_drivable_lanes (m_param dp)) \<noteq> None"
      using plan_route_lanelets_fails [of i points env dp "[]"] run by auto
  qed
qed

text \<open>
  On the example map, a single check point in the parking lot: the goal is valid, no route
  section exists, and the call ends in the read out of bounds. With the two check points of a
  path there are two sections.
\<close>

theorem C10_witness:
  "(\<forall>ls. length (createMapSegments ring_world ls ls) = length ls) \<and>
   plan_route_lanelets ring_world ring_planner [pose_at (11 / 2)] [] = Some [] \<and>
   is_goal_valid (Suc (Suc (Suc 0))) ring_world (setRouteLanelets ring_planner [])
     (plan_goal_pose ring_world (setRouteLanelets ring_planner []) [pose_at (11 / 2)]) [] =
     Some (True, []) \<and>
   \<not> isRouteLooped ring_world [] \<and>
   refine_goal_height ring_world (pose_at (11 / 2)) [] = Inl Back_of_empty_vector \<and>
   plan (Suc (Suc (Suc 0))) ring_world ring_planner [pose_at (11 / 2)] =
     Some (Inl Back_of_empty_vector) \<and>
   plan_route_lanelets ring_world ring_planner [pose_at (3 / 2), pose_at (5 / 2)] [] =
     Some [[1], [2]] \<and>
   createMapSegments ring_world [[1], [2]] [[1], [2]] \<noteq> []"
proof -
  have sections: "length (createMapSegments ring_world ls ls) = length ls" for ls
    by simp
  have alone: "plan_route_lanelets ring_world ring_planner [pose_at (11 / 2)] [] = Some []"
    by simp
  have valid: "is_goal_valid (Suc (Suc (Suc 0))) ring_world (setRouteLanelets ring_planner [])
     (plan_goal_pose ring_world (setRouteLanelets ring_planner []) [pose_at (11 / 2)]) [] =
     Some (True, [])"
    by (simp add: ring_eval)
  have unlooped: "\<not> isRouteLooped ring_world []" by simp
  have pair: "plan_route_lanelets ring_world ring_planner [pose_at (3 / 2), pose_at (5 / 2)] [] =
     Some [[1], [2]]"
    by (simp add: ring_eval)
  note t = C10_refine_goal_height_needs_a_section
    [of ring_world "pose_at (11 / 2)" "[]" "Suc (Suc (Suc 0))" ring_planner "pose_at (11 / 2)" "[]"
        "[pose_at (3 / 2), pose_at (5 / 2)]" "[[1], [2]]", OF sections]
  from t have "refine_goal_height ring_world (pose_at (11 / 2)) [] = Inl Back_of_empty_vector"
    by blast
  moreover from t valid unlooped
  have "plan (Suc (Suc (Suc 0))) ring_world ring_planner [pose_at (11 / 2)] =
      Some (Inl Back_of_empty_vector)"
    by blast
  moreover have "createMapSegments ring_world [[1], [2]] [[1], [2]] \<noteq> []" by simp
  ultimately show ?thesis using sections alone valid unlooped pair by blast
qed

end
